theory Spec2Isabelle
  imports Complex_Main "HOL-Library.AList"
begin

section \<open>Python values\<close>

text \<open>
  The dashboards handled by the dynamic pipeline are plain Python dictionaries and lists.
  A dictionary is an association list in insertion order (the order Python iterates in);
  its keys are strings, as in every dictionary the pipeline builds. \<open>PObj\<close> stands for any
  other object (a session, a server handle, a data frame), known by a label only.
  Strings are lists of 8-bit characters (code points 0 to 255).
  Values are compared by content; sharing of one mutable object between two places of a
  dashboard is not modelled.
\<close>

datatype pyval =
    PNone
  | PBool bool
  | PInt int
  | PStr string
  | PList "pyval list"
  | PDict "(string \<times> pyval) list"
  | PObj string

text \<open>
  Exceptions, with the text \<open>str(e)\<close> gives for them. \<open>OtherError\<close> is any other class
  derived from \<open>Exception\<close>; \<open>SystemExit\<close> and \<open>KeyboardInterrupt\<close> derive from
  \<open>BaseException\<close> only, so an \<open>except Exception\<close> clause does not catch them.
\<close>

datatype exn =
    KeyError string
  | TypeError string
  | AttributeError string
  | IndexError string
  | ValueError string
  | OtherError string
  | SystemExit string
  | KeyboardInterrupt string

definition quoted :: "string \<Rightarrow> string" where
  "quoted s = [CHR 0x27] @ s @ [CHR 0x27]"

fun str_exn :: "exn \<Rightarrow> string" where
  "str_exn (KeyError k) = quoted k"
| "str_exn (TypeError m) = m"
| "str_exn (AttributeError m) = m"
| "str_exn (IndexError m) = m"
| "str_exn (ValueError m) = m"
| "str_exn (OtherError m) = m"
| "str_exn (SystemExit m) = m"
| "str_exn (KeyboardInterrupt m) = m"

text \<open>\<open>isinstance(e, Exception)\<close>.\<close>

fun is_exception :: "exn \<Rightarrow> bool" where
  "is_exception (SystemExit m) = False"
| "is_exception (KeyboardInterrupt m) = False"
| "is_exception e = True"

text \<open>Sequencing of steps that may raise: the first exception ends the computation.\<close>

definition bnd :: "exn + 'a \<Rightarrow> ('a \<Rightarrow> exn + 'b) \<Rightarrow> exn + 'b" where
  "bnd m f = (case m of Inl e \<Rightarrow> Inl e | Inr x \<Rightarrow> f x)"

fun type_name :: "pyval \<Rightarrow> string" where
  "type_name PNone = ''NoneType''"
| "type_name (PBool b) = ''bool''"
| "type_name (PInt i) = ''int''"
| "type_name (PStr s) = ''str''"
| "type_name (PList xs) = ''list''"
| "type_name (PDict kvs) = ''dict''"
| "type_name (PObj l) = l"

definition no_attribute :: "pyval \<Rightarrow> string \<Rightarrow> exn" where
  "no_attribute v a =
     AttributeError (quoted (type_name v) @ '' object has no attribute '' @ quoted a)"

text \<open>\<open>d.get(k, default)\<close> on a dictionary.\<close>

definition dict_get :: "(string \<times> pyval) list \<Rightarrow> string \<Rightarrow> pyval \<Rightarrow> pyval" where
  "dict_get d k dflt = (case map_of d k of None \<Rightarrow> dflt | Some v \<Rightarrow> v)"

text \<open>\<open>k in d\<close> on a dictionary.\<close>

definition dict_has :: "(string \<times> pyval) list \<Rightarrow> string \<Rightarrow> bool" where
  "dict_has d k = (k \<in> set (map fst d))"

text \<open>\<open>v.get(k, default)\<close> on any value: only a dictionary has the method.\<close>

fun py_get :: "pyval \<Rightarrow> string \<Rightarrow> pyval \<Rightarrow> exn + pyval" where
  "py_get (PDict d) k dflt = Inr (dict_get d k dflt)"
| "py_get v k dflt = Inl (no_attribute v ''get'')"

text \<open>\<open>v[k]\<close> with a string key \<open>k\<close>.\<close>

fun py_subscript :: "pyval \<Rightarrow> string \<Rightarrow> exn + pyval" where
  "py_subscript (PDict d) k = (case map_of d k of None \<Rightarrow> Inl (KeyError k) | Some v \<Rightarrow> Inr v)"
| "py_subscript (PList xs) k = Inl (TypeError ''list indices must be integers or slices, not str'')"
| "py_subscript (PStr s) k = Inl (TypeError (''string indices must be integers, not '' @ quoted ''str''))"
| "py_subscript v k =
     Inl (TypeError (quoted (type_name v) @ '' object is not subscriptable''))"

text \<open>
  The items a \<open>for\<close> loop over a value visits: the elements of a list, the keys of a
  dictionary, the characters of a string; anything else is not iterable.
\<close>

fun py_iter :: "pyval \<Rightarrow> exn + pyval list" where
  "py_iter (PList xs) = Inr xs"
| "py_iter (PDict d) = Inr (map (\<lambda>kv. PStr (fst kv)) d)"
| "py_iter (PStr s) = Inr (map (\<lambda>c. PStr [c]) s)"
| "py_iter v =
     Inl (TypeError (quoted (type_name v) @ '' object is not iterable''))"

text \<open>Truth value of a Python value, as \<open>x or y\<close> and \<open>if x\<close> test it.\<close>

fun truthy :: "pyval \<Rightarrow> bool" where
  "truthy PNone = False"
| "truthy (PBool b) = b"
| "truthy (PInt i) = (i \<noteq> 0)"
| "truthy (PStr s) = (s \<noteq> [])"
| "truthy (PList xs) = (xs \<noteq> [])"
| "truthy (PDict d) = (d \<noteq> [])"
| "truthy (PObj l) = True"

definition py_or :: "pyval \<Rightarrow> pyval \<Rightarrow> pyval" where
  "py_or x y = (if truthy x then x else y)"

section \<open>The component unifier (dashboard\_extractor.py)\<close>

text \<open>
  The loop body of \<open>_ensure_unified_schema\<close>: a component that is a dictionary and has no
  \<open>highlights\<close> key gets \<open>highlights = []\<close>, appended as the last key; every component,
  dictionary or not, is then appended to the output.
\<close>

fun add_highlights :: "pyval \<Rightarrow> pyval" where
  "add_highlights (PDict c) =
     (if \<not> dict_has c ''highlights'' then PDict (AList.update ''highlights'' (PList []) c)
      else PDict c)"
| "add_highlights v = v"

definition ensure_unified_schema :: "pyval \<Rightarrow> string \<Rightarrow> string \<Rightarrow> pyval \<Rightarrow> exn + pyval" where
  "ensure_unified_schema result source auth_type drill_state =
     bnd (py_get result ''components'' (PList [])) (\<lambda>components.
     bnd (py_iter components) (\<lambda>comps.
     let updated_components = map add_highlights comps in
     bnd (py_get result ''status'' (PStr ''success'')) (\<lambda>status.
     bnd (py_get result ''tables'' (PList [])) (\<lambda>tables.
     bnd (py_get result ''kpis'' (PList [])) (\<lambda>kpis.
     bnd (py_get result ''filters'' (PList [])) (\<lambda>filters.
     bnd (py_get result ''visuals'' (PList [])) (\<lambda>visuals.
     bnd (py_get result ''layout'' (PDict [])) (\<lambda>layout.
     bnd (py_get result ''html_text'' (PStr '''')) (\<lambda>html_text.
     bnd (py_get result ''drill_state'' (py_or drill_state (PDict []))) (\<lambda>ds.
     bnd (py_get result ''error'' PNone) (\<lambda>error.
     Inr (PDict
       [(''status'', status),
        (''source'', PStr source),
        (''auth_type'', PStr auth_type),
        (''tables'', tables),
        (''kpis'', kpis),
        (''filters'', filters),
        (''visuals'', visuals),
        (''layout'', layout),
        (''components'', PList updated_components),
        (''html_text'', html_text),
        (''drill_state'', ds),
        (''error'', error)]))))))))))))"

definition fail_result :: "string \<Rightarrow> string \<Rightarrow> pyval \<Rightarrow> pyval" where
  "fail_result source auth_type error =
     PDict
       [(''status'', PStr ''failed''),
        (''source'', PStr source),
        (''auth_type'', PStr auth_type),
        (''tables'', PList []),
        (''kpis'', PList []),
        (''filters'', PList []),
        (''visuals'', PList []),
        (''layout'', PDict []),
        (''components'', PList []),
        (''html_text'', PStr ''''),
        (''error'', error)]"

text \<open>
  The collaborators of \<open>extract_dashboard\<close> are parameters: the connector
  \<open>connect_bi_dashboard(source, auth_type, **kwargs)\<close> and the four adapter methods, each
  of which returns a value or raises. A call that fails before the method body runs, as
  the Power BI calls do when they pass the keywords \<open>session\<close> and \<open>public_url\<close> that
  the methods of \<open>PowerBIExtractor\<close> do not declare, is an adapter that raises.
\<close>

record adapters =
  powerbi_private :: "pyval \<Rightarrow> pyval \<Rightarrow> pyval \<Rightarrow> pyval \<Rightarrow> exn + pyval"
  powerbi_public :: "pyval \<Rightarrow> pyval \<Rightarrow> pyval \<Rightarrow> exn + pyval"
  tableau_private :: "pyval \<Rightarrow> pyval \<Rightarrow> pyval \<Rightarrow> exn + pyval"
  tableau_public :: "pyval \<Rightarrow> pyval \<Rightarrow> pyval \<Rightarrow> exn + pyval"

type_synonym connector = "string \<Rightarrow> string \<Rightarrow> (string \<times> pyval) list \<Rightarrow> exn + pyval"

text \<open>
  Step 2 of \<open>extract_dashboard\<close>: \<open>result\<close> starts as \<open>None\<close> and is assigned by the branch
  for the source and auth type, if there is one.
\<close>

definition run_adapter ::
  "adapters \<Rightarrow> pyval \<Rightarrow> string \<Rightarrow> string \<Rightarrow> pyval \<Rightarrow> (string \<times> pyval) list \<Rightarrow> exn + pyval" where
  "run_adapter ad conn source auth_type drill_state kwargs =
     (if source = ''powerbi'' then
        (if auth_type = ''private'' then
           bnd (py_subscript conn ''client'') (\<lambda>client.
           bnd (py_subscript conn ''metadata'') (\<lambda>metadata.
           bnd (py_get metadata ''workspace_id'' PNone) (\<lambda>workspace_id.
           powerbi_private ad client workspace_id (dict_get kwargs ''report_id'' PNone) drill_state)))
         else if auth_type = ''public'' then
           powerbi_public ad (dict_get kwargs ''embed_url'' PNone)
             (dict_get kwargs ''use_ocr'' (PBool True)) drill_state
         else Inr PNone)
      else if source = ''tableau'' then
        (if auth_type = ''private'' then
           bnd (py_subscript conn ''client'') (\<lambda>client.
           tableau_private ad client (dict_get kwargs ''view_id'' PNone) drill_state)
         else if auth_type = ''public'' then
           tableau_public ad (dict_get kwargs ''public_url'' PNone)
             (dict_get kwargs ''use_ocr'' (PBool True)) drill_state
         else Inr PNone)
      else Inr PNone)"

text \<open>The body of the \<open>try\<close> block of \<open>extract_dashboard\<close>.\<close>

definition extract_body ::
  "connector \<Rightarrow> adapters \<Rightarrow> string \<Rightarrow> string \<Rightarrow> pyval \<Rightarrow> (string \<times> pyval) list \<Rightarrow> exn + pyval" where
  "extract_body connect ad source auth_type drill_state kwargs =
     bnd (connect source auth_type kwargs) (\<lambda>conn.
     bnd (py_subscript conn ''status'') (\<lambda>status.
     if status \<noteq> PStr ''success'' then
       bnd (py_get conn ''error'' PNone) (\<lambda>err. Inr (fail_result source auth_type err))
     else
       bnd (run_adapter ad conn source auth_type drill_state kwargs) (\<lambda>result.
       if result \<noteq> PNone then ensure_unified_schema result source auth_type drill_state
       else Inr (fail_result source auth_type
                   (PStr ''Unsupported source/auth_type combination.'')))))"

text \<open>
  \<open>extract_dashboard\<close>: the \<open>except Exception\<close> clause turns an exception of the body that
  derives from \<open>Exception\<close> into a failure result carrying \<open>str(e)\<close>; any other exception
  leaves the call.
\<close>

definition extract_dashboard ::
  "connector \<Rightarrow> adapters \<Rightarrow> string \<Rightarrow> string \<Rightarrow> pyval \<Rightarrow> (string \<times> pyval) list \<Rightarrow> exn + pyval" where
  "extract_dashboard connect ad source auth_type drill_state kwargs =
     (case extract_body connect ad source auth_type drill_state kwargs of
        Inl e \<Rightarrow> (if is_exception e then Inr (fail_result source auth_type (PStr (str_exn e)))
                  else Inl e)
      | Inr r \<Rightarrow> Inr r)"

text \<open>Reading a field of a dashboard; \<open>None\<close> when the key is absent.\<close>

definition field :: "pyval \<Rightarrow> string \<Rightarrow> pyval option" where
  "field v k = (case v of PDict d \<Rightarrow> map_of d k | _ \<Rightarrow> None)"

text \<open>The field of a computed dashboard; \<open>None\<close> also when the computation raised.\<close>

definition result_field :: "exn + pyval \<Rightarrow> string \<Rightarrow> pyval option" where
  "result_field r k = (case r of Inl e \<Rightarrow> None | Inr v \<Rightarrow> field v k)"

text \<open>
  Stand-ins for the collaborators, as the repository's tests patch them in: a connector
  that returns a given dictionary or raises, and adapters that all give one outcome.
\<close>

definition connect_giving :: "exn + pyval \<Rightarrow> connector" where
  "connect_giving outcome source auth_type kwargs = outcome"

definition connected :: pyval where
  "connected = PDict [(''status'', PStr ''success''), (''client'', PObj ''client''),
                      (''metadata'', PDict [])]"

definition adapters_giving :: "exn + pyval \<Rightarrow> adapters" where
  "adapters_giving outcome =
     \<lparr> powerbi_private = (\<lambda>client workspace_id report_id drill_state. outcome),
       powerbi_public = (\<lambda>url use_ocr drill_state. outcome),
       tableau_private = (\<lambda>server view_id drill_state. outcome),
       tableau_public = (\<lambda>url use_ocr drill_state. outcome) \<rparr>"

section \<open>The drill-up endpoint (tool\_endpoints.py)\<close>

text \<open>\<open>v.values()\<close>: only a dictionary has the method.\<close>

fun py_values :: "pyval \<Rightarrow> exn + pyval list" where
  "py_values (PDict d) = Inr (map snd d)"
| "py_values v = Inl (no_attribute v ''values'')"

text \<open>
  \<open>v.pop()\<close> with no argument, giving the container as it is afterwards: a list loses its
  last element, an empty list raises IndexError, a dictionary wants a key.
\<close>

fun py_pop :: "pyval \<Rightarrow> exn + pyval" where
  "py_pop (PList xs) =
     (if xs = [] then Inl (IndexError ''pop from empty list'') else Inr (PList (butlast xs)))"
| "py_pop (PDict d) = Inl (TypeError ''pop expected at least 1 argument, got 0'')"
| "py_pop v = Inl (no_attribute v ''pop'')"

text \<open>
  The \<open>for ... else\<close> loop of \<open>drill_up\<close>. The result is the drill state of the visual the
  loop stopped at, after the pop; \<open>None\<close> when no visual has the name and the \<open>else\<close>
  branch runs.
\<close>

fun drill_up_loop :: "string \<Rightarrow> pyval list \<Rightarrow> exn + pyval option" where
  "drill_up_loop visual_name [] = Inr None"
| "drill_up_loop visual_name (visual # rest) =
     bnd (py_get visual ''name'' PNone) (\<lambda>name.
     if name = PStr visual_name then
       (case visual of
          PDict v \<Rightarrow>
            (let v' = (if \<not> dict_has v ''drill_state''
                       then AList.update ''drill_state'' (PList []) v else v) in
             bnd (py_subscript (PDict v') ''drill_state'') (\<lambda>ds.
             bnd (py_pop ds) (\<lambda>ds'. Inr (Some ds'))))
        | _ \<Rightarrow> Inl (no_attribute visual ''get''))
     else drill_up_loop visual_name rest)"

text \<open>
  \<open>drill_up\<close> has no \<open>try\<close>: what the loop raises leaves the endpoint. The assignment
  \<open>dashboard["visuals"] = visuals\<close> is dropped, the dashboard being replaced right after.
\<close>

definition drill_up ::
  "connector \<Rightarrow> adapters \<Rightarrow> string \<Rightarrow> string \<Rightarrow> string \<Rightarrow> (string \<times> pyval) list \<Rightarrow> exn + pyval" where
  "drill_up connect ad visual_name source auth_type kwargs =
     bnd (extract_dashboard connect ad source auth_type PNone kwargs) (\<lambda>dashboard.
     bnd (py_get dashboard ''visuals'' (PDict [])) (\<lambda>visuals.
     bnd (py_values visuals) (\<lambda>vs.
     bnd (drill_up_loop visual_name vs) (\<lambda>found.
     case found of
       None \<Rightarrow> Inr (PDict [(''status'', PStr ''failed''),
                          (''error'', PStr (''Visual '' @ visual_name @ '' not found.''))])
     | Some ds \<Rightarrow>
         bnd (extract_dashboard connect ad source auth_type (PDict [(visual_name, ds)]) kwargs)
           (\<lambda>dashboard. Inr (PDict [(''status'', PStr ''success''),
                                   (''dashboard'', dashboard)]))))))"

section \<open>Column names (data\_cleaning.py)\<close>

text \<open>
  Characters by code point. \<open>is_word_char\<close> is the class \<open>[0-9a-zA-Z_]\<close>; \<open>is_py_space\<close> is
  what \<open>str.strip()\<close> removes and \<open>py_lower_char\<close> what \<open>str.lower()\<close> does, for code points
  up to 255.
\<close>

definition is_word_char :: "char \<Rightarrow> bool" where
  "is_word_char c =
     (let n = (of_char c :: nat) in
      (48 \<le> n \<and> n \<le> 57) \<or> (65 \<le> n \<and> n \<le> 90) \<or> (97 \<le> n \<and> n \<le> 122) \<or> n = 95)"

definition is_py_space :: "char \<Rightarrow> bool" where
  "is_py_space c =
     (let n = (of_char c :: nat) in
      (9 \<le> n \<and> n \<le> 13) \<or> (28 \<le> n \<and> n \<le> 32) \<or> n = 133 \<or> n = 160)"

definition py_lower_char :: "char \<Rightarrow> char" where
  "py_lower_char c =
     (let n = (of_char c :: nat) in
      if (65 \<le> n \<and> n \<le> 90) \<or> (192 \<le> n \<and> n \<le> 222 \<and> n \<noteq> 215)
      then char_of (n + 32) else c)"

text \<open>\<open>s.strip(chars)\<close>: the characters are removed from both ends.\<close>

definition strip_chars :: "(char \<Rightarrow> bool) \<Rightarrow> string \<Rightarrow> string" where
  "strip_chars p s = rev (dropWhile p (rev (dropWhile p s)))"

text \<open>
  \<open>re.sub(r"[...]+", "_", s)\<close>: every maximal run of characters of the class is replaced by
  one underscore.
\<close>

function sub_runs :: "(char \<Rightarrow> bool) \<Rightarrow> string \<Rightarrow> string" where
  "sub_runs p [] = []"
| "sub_runs p (c # cs) =
     (if p c then CHR ''_'' # sub_runs p (dropWhile p cs) else c # sub_runs p cs)"
  by pat_completeness auto
termination
  by (relation "measure (\<lambda>(p, s). length s)") (auto simp: length_dropWhile_le less_Suc_eq_le)

text \<open>The two list comprehensions at the head of \<open>normalize_column_names\<close>, on one name.\<close>

definition slug_step1 :: "string \<Rightarrow> string" where
  "slug_step1 col = sub_runs (\<lambda>c. \<not> is_word_char c) (map py_lower_char (strip_chars is_py_space col))"

definition slug_step2 :: "string \<Rightarrow> string" where
  "slug_step2 c = strip_chars (\<lambda>x. x = CHR ''_'') (sub_runs (\<lambda>x. x = CHR ''_'') c)"

text \<open>Decimal text of a count, as the f-string prints it.\<close>

fun str_nat :: "nat \<Rightarrow> string" where
  "str_nat n =
     (if n < 10 then [char_of (48 + n)] else str_nat (n div 10) @ [char_of (48 + n mod 10)])"

declare str_nat.simps [simp del]

text \<open>
  \<open>_deduplicate_columns\<close>: \<open>counts\<close> is the Counter, zero for a name not seen yet; a name
  seen for the k-th time, k > 1, becomes \<open>name_k\<close>.
\<close>

fun dedup_loop :: "(string \<Rightarrow> nat) \<Rightarrow> string list \<Rightarrow> string list" where
  "dedup_loop counts [] = []"
| "dedup_loop counts (col # columns) =
     (let counts' = counts(col := counts col + 1) in
      (if counts' col > 1 then col @ ''_'' @ str_nat (counts' col) else col)
        # dedup_loop counts' columns)"

definition deduplicate_columns :: "string list \<Rightarrow> string list" where
  "deduplicate_columns columns = dedup_loop (\<lambda>col. 0) columns"

text \<open>
  The semantic map, standard name to aliases, in insertion order. \<open>reverse_map\<close> is the
  dictionary comprehension: a later entry for the same alias replaces an earlier one.
\<close>

type_synonym semantic_map = "(string \<times> string list) list"

definition default_semantic_map :: semantic_map where
  "default_semantic_map =
     [(''revenue_usd'', [''revenue_$'', ''sales_usd'', ''total_sales'']),
      (''date'', [''order_date'', ''created_on'', ''timestamp''])]"

definition reverse_map :: "semantic_map \<Rightarrow> (string \<times> string) list" where
  "reverse_map sm = rev (concat (map (\<lambda>(std, aliases). map (\<lambda>alias. (alias, std)) aliases) sm))"

definition apply_alias :: "semantic_map \<Rightarrow> string \<Rightarrow> string" where
  "apply_alias sm c = (case map_of (reverse_map sm) c of None \<Rightarrow> c | Some std \<Rightarrow> std)"

text \<open>\<open>normalize_column_names\<close>, on the column names of the frame.\<close>

definition normalize_column_names :: "semantic_map \<Rightarrow> string list \<Rightarrow> string list" where
  "normalize_column_names sm columns =
     (let cols = map slug_step1 columns;
          cols = map slug_step2 cols;
          cols = deduplicate_columns cols;
          cols = map (apply_alias sm) cols
      in cols)"

text \<open>
  The shape of a slugified name: only digits, lower-case letters and underscores, no two
  underscores in a row, and no underscore at either end.
\<close>

definition is_slug_char :: "char \<Rightarrow> bool" where
  "is_slug_char c =
     (let n = (of_char c :: nat) in (48 \<le> n \<and> n \<le> 57) \<or> (97 \<le> n \<and> n \<le> 122) \<or> n = 95)"

fun no_double_us :: "string \<Rightarrow> bool" where
  "no_double_us (a # b # cs) = (\<not> (a = CHR ''_'' \<and> b = CHR ''_'') \<and> no_double_us (b # cs))"
| "no_double_us cs = True"

definition slug_form :: "string \<Rightarrow> bool" where
  "slug_form s = (list_all is_slug_char s \<and> no_double_us s
                  \<and> (s = [] \<or> (hd s \<noteq> CHR ''_'' \<and> last s \<noteq> CHR ''_'')))"

section \<open>Missing values (data\_cleaning.py)\<close>

text \<open>
  pandas is not part of the repository: the frame type \<open>'df\<close> and the operations
  \<open>handle_missing_values\<close> calls on it are parameters. \<open>fill_column_mean col\<close> is
  \<open>df[col].fillna(df[col].mean(), inplace=True)\<close>, \<open>mode_is_empty col\<close> is
  \<open>df[col].mode().empty\<close> and \<open>fill_column_mode col\<close> is
  \<open>df[col].fillna(df[col].mode()[0], inplace=True)\<close>.
\<close>

record 'df frame_ops =
  dropna :: "'df \<Rightarrow> 'df"
  fillna :: "pyval \<Rightarrow> 'df \<Rightarrow> 'df"
  number_columns :: "'df \<Rightarrow> string list"
  object_columns :: "'df \<Rightarrow> string list"
  fill_column_mean :: "string \<Rightarrow> 'df \<Rightarrow> 'df"
  mode_is_empty :: "string \<Rightarrow> 'df \<Rightarrow> bool"
  fill_column_mode :: "string \<Rightarrow> 'df \<Rightarrow> 'df"

definition handle_missing_values ::
  "'df frame_ops \<Rightarrow> string \<Rightarrow> pyval \<Rightarrow> 'df \<Rightarrow> exn + 'df" where
  "handle_missing_values ops missing_value_strategy fill_constant df =
     (if missing_value_strategy = ''drop'' then Inr (dropna ops df)
      else if missing_value_strategy = ''fill_mean'' then
        (let df1 = fold (fill_column_mean ops) (number_columns ops df) df;
             df2 = fold (\<lambda>col d. if \<not> mode_is_empty ops col d then fill_column_mode ops col d else d)
                        (object_columns ops df1) df1
         in Inr df2)
      else if missing_value_strategy = ''fill_constant'' then Inr (fillna ops fill_constant df)
      else Inl (ValueError (''Unsupported missing value strategy: '' @ missing_value_strategy)))"

text \<open>
  Frame operations to run examples on: a frame is its rows, a missing value is \<open>None\<close>,
  and no column counts as numeric or as object.
\<close>

definition row_ops :: "pyval list list frame_ops" where
  "row_ops =
     \<lparr> dropna = filter (\<lambda>row. PNone \<notin> set row),
       fillna = (\<lambda>value. map (map (\<lambda>v. if v = PNone then value else v))),
       number_columns = (\<lambda>df. []),
       object_columns = (\<lambda>df. []),
       fill_column_mean = (\<lambda>col df. df),
       mode_is_empty = (\<lambda>col df. True),
       fill_column_mode = (\<lambda>col df. df) \<rparr>"

section \<open>Scalar values (data\_cleaning.py)\<close>

text \<open>
  A cell of an object column: a missing value, a string, or a number of the numeric type
  \<open>'n\<close>. The numeric type is a parameter with the three operations \<open>normalize_values\<close> needs:
  \<open>to_numeric\<close> is \<open>pd.to_numeric(..., errors="coerce")\<close> on one string, \<open>None\<close> being the
  NaN it gives where it cannot convert; \<open>div100\<close> is \<open>x / 100.0\<close>; \<open>num_str\<close> is \<open>str(x)\<close>.
  A missing value prints as \<open>nan\<close> under \<open>astype(str)\<close> (as \<open>None\<close> when it is the object
  \<open>None\<close>; neither text holds a character that is stripped).
\<close>

datatype 'n cell = Null | Str string | Num 'n

record 'n numerics =
  to_numeric :: "string \<Rightarrow> 'n option"
  div100 :: "'n \<Rightarrow> 'n"
  num_str :: "'n \<Rightarrow> string"

fun astype_str :: "'n numerics \<Rightarrow> 'n cell \<Rightarrow> string" where
  "astype_str np Null = ''nan''"
| "astype_str np (Str s) = s"
| "astype_str np (Num x) = num_str np x"

text \<open>The string \<open>pd.to_numeric\<close> is given for a cell: stripped, then without \<open>$\<close>, \<open>,\<close> and \<open>%\<close>.\<close>

definition stripped_text :: "'n numerics \<Rightarrow> 'n cell \<Rightarrow> string" where
  "stripped_text np c = strip_chars is_py_space (astype_str np c)"

definition cleaned_text :: "'n numerics \<Rightarrow> 'n cell \<Rightarrow> string" where
  "cleaned_text np c =
     filter (\<lambda>x. x \<noteq> CHR ''%'') (filter (\<lambda>x. x \<noteq> CHR ''$'' \<and> x \<noteq> CHR '','') (stripped_text np c))"

text \<open>
  \<open>series.str.contains("%").mean() > 0.5\<close>: the share of values containing a percent sign
  is above one half, that is, twice their number exceeds the length of the column
  (false for the empty column, whose mean is NaN).
\<close>

definition is_percentage :: "'n numerics \<Rightarrow> 'n cell list \<Rightarrow> bool" where
  "is_percentage np cells =
     (2 * length (filter (\<lambda>c. CHR ''%'' \<in> set (stripped_text np c)) cells) > length cells)"

text \<open>The body of the loop of \<open>normalize_values\<close>, on the cells of one column.\<close>

definition normalize_values_column :: "'n numerics \<Rightarrow> 'n cell list \<Rightarrow> 'n cell list" where
  "normalize_values_column np cells =
     (let numeric_series = map (\<lambda>c. to_numeric np (cleaned_text np c)) cells;
          numeric_series =
            (if is_percentage np cells then map (map_option (div100 np)) numeric_series
             else numeric_series)
      in map (\<lambda>(n, orig). case n of None \<Rightarrow> orig | Some x \<Rightarrow> Num x) (zip numeric_series cells))"

text \<open>
  A frame is its columns in order, each with its dtype; \<open>normalize_values\<close> rewrites the
  columns \<open>select_dtypes(include=["object", "string"])\<close> picks and leaves the others.
\<close>

datatype dtype = ObjectDtype | StringDtype | NumberDtype | DatetimeDtype

type_synonym 'n frame = "(string \<times> dtype \<times> 'n cell list) list"

definition result_dtype :: "'n cell list \<Rightarrow> dtype" where
  "result_dtype cells = (if list_all (\<lambda>c. case c of Num x \<Rightarrow> True | _ \<Rightarrow> False) cells
                         then NumberDtype else ObjectDtype)"

definition normalize_values :: "'n numerics \<Rightarrow> 'n frame \<Rightarrow> 'n frame" where
  "normalize_values np df =
     map (\<lambda>(col, dt, cells).
            if dt = ObjectDtype \<or> dt = StringDtype
            then (let cells' = normalize_values_column np cells in (col, result_dtype cells', cells'))
            else (col, dt, cells)) df"




section \<open>Cleaning a unified dashboard (data\_cleaning.py)\<close>

text \<open>
  The data frames \<open>clean_unified_dashboard_data\<close> builds and the pipeline \<open>self.clean\<close> it
  runs on them are parameters: \<open>data_frame data columns\<close> is \<open>pd.DataFrame(data, columns=columns)\<close>
  (\<open>PNone\<close> for no \<open>columns\<close> argument), \<open>clean\<close> is \<open>self.clean(df)\<close> and \<open>to_dict_records\<close> is
  \<open>df.to_dict(orient="records")\<close>. Each returns a value or raises.
\<close>

record frame_lib =
  data_frame :: "pyval \<Rightarrow> pyval \<Rightarrow> exn + pyval"
  clean :: "pyval \<Rightarrow> exn + pyval"
  to_dict_records :: "pyval \<Rightarrow> exn + pyval"

text \<open>A loop that appends one result per item and stops at the first exception.\<close>

fun map_exn :: "('a \<Rightarrow> exn + 'b) \<Rightarrow> 'a list \<Rightarrow> exn + 'b list" where
  "map_exn f [] = Inr []"
| "map_exn f (x # xs) = bnd (f x) (\<lambda>y. bnd (map_exn f xs) (\<lambda>ys. Inr (y # ys)))"

text \<open>\<open>v[0]\<close>.\<close>

fun py_index0 :: "pyval \<Rightarrow> exn + pyval" where
  "py_index0 (PList xs) =
     (case xs of [] \<Rightarrow> Inl (IndexError ''list index out of range'') | x # rest \<Rightarrow> Inr x)"
| "py_index0 (PStr s) =
     (case s of [] \<Rightarrow> Inl (IndexError ''string index out of range'') | c # rest \<Rightarrow> Inr (PStr [c]))"
| "py_index0 (PDict d) = Inl (OtherError ''0'')"
| "py_index0 v = Inl (TypeError (quoted (type_name v) @ '' object is not subscriptable''))"

text \<open>\<open>v[k] = x\<close> with a string key, giving the container as it is afterwards.\<close>

fun py_setitem :: "pyval \<Rightarrow> string \<Rightarrow> pyval \<Rightarrow> exn + pyval" where
  "py_setitem (PDict d) k x = Inr (PDict (AList.update k x d))"
| "py_setitem v k x =
     Inl (TypeError (quoted (type_name v) @ '' object does not support item assignment''))"

text \<open>The body of the loop over tables.\<close>

definition clean_table :: "frame_lib \<Rightarrow> pyval \<Rightarrow> exn + pyval" where
  "clean_table fr table =
     (case table of
        PDict t \<Rightarrow>
          (let headers = dict_get t ''headers'' (PList []);
               rows = dict_get t ''rows'' (PList []) in
           bnd (if truthy headers \<and> truthy rows then data_frame fr rows headers
                else data_frame fr rows PNone) (\<lambda>df.
           clean fr df))
      | _ \<Rightarrow> Inr table)"

text \<open>The body of the loops over KPIs, filters and visuals.\<close>

definition clean_record :: "frame_lib \<Rightarrow> pyval \<Rightarrow> exn + pyval" where
  "clean_record fr item =
     (case item of
        PDict d \<Rightarrow> bnd (data_frame fr (PList [item]) PNone) (\<lambda>df. clean fr df)
      | _ \<Rightarrow> Inr item)"

text \<open>The body of the loop over components.\<close>

definition clean_component :: "frame_lib \<Rightarrow> pyval \<Rightarrow> exn + pyval" where
  "clean_component fr component =
     (case component of
        PDict c0 \<Rightarrow>
          (let c = (if \<not> dict_has c0 ''highlights''
                    then AList.update ''highlights'' (PList []) c0 else c0);
               comp_type = dict_get c ''type'' (PStr ''unknown'') in
           if comp_type \<in> set [PStr ''table'', PStr ''kpi'', PStr ''filter'', PStr ''visual''] then
             (let highlights = dict_get c ''highlights'' (PList []);
                  c1 = AList.delete ''highlights'' c;
                  drill_state = dict_get c1 ''drill_state'' PNone;
                  c2 = AList.delete ''drill_state'' c1 in
              bnd (data_frame fr (PList [PDict c2]) PNone) (\<lambda>df.
              bnd (clean fr df) (\<lambda>df.
              bnd (to_dict_records fr df) (\<lambda>records.
              bnd (py_index0 records) (\<lambda>comp_cleaned.
              bnd (py_setitem comp_cleaned ''highlights'' highlights) (\<lambda>comp_cleaned.
              if drill_state \<noteq> PNone then py_setitem comp_cleaned ''drill_state'' drill_state
              else Inr comp_cleaned))))))
           else Inr (PDict c))
      | _ \<Rightarrow> Inr component)"

definition clean_unified_dashboard_data :: "frame_lib \<Rightarrow> pyval \<Rightarrow> exn + pyval" where
  "clean_unified_dashboard_data fr extracted =
     (case extracted of
        PDict e \<Rightarrow>
          bnd (py_iter (dict_get e ''tables'' (PList []))) (\<lambda>tables.
          bnd (map_exn (clean_table fr) tables) (\<lambda>cleaned_tables.
          bnd (py_iter (dict_get e ''kpis'' (PList []))) (\<lambda>kpis.
          bnd (map_exn (clean_record fr) kpis) (\<lambda>cleaned_kpis.
          bnd (py_iter (dict_get e ''filters'' (PList []))) (\<lambda>filters.
          bnd (map_exn (clean_record fr) filters) (\<lambda>cleaned_filters.
          bnd (py_iter (dict_get e ''visuals'' (PList []))) (\<lambda>visuals.
          bnd (map_exn (clean_record fr) visuals) (\<lambda>cleaned_visuals.
          bnd (py_iter (dict_get e ''components'' (PList []))) (\<lambda>components.
          bnd (map_exn (clean_component fr) components) (\<lambda>cleaned_components.
          Inr (PDict
            [(''tables'', PList cleaned_tables),
             (''kpis'', PList cleaned_kpis),
             (''filters'', PList cleaned_filters),
             (''visuals'', PList cleaned_visuals),
             (''layout'', dict_get e ''layout'' (PDict [])),
             (''components'', PList cleaned_components),
             (''html_text'', dict_get e ''html_text'' (PStr '''')),
             (''error'', dict_get e ''error'' PNone),
             (''source'', dict_get e ''source'' (PStr '''')),
             (''auth_type'', dict_get e ''auth_type'' (PStr '''')),
             (''drill_state'', dict_get e ''drill_state'' (PDict []))])))))))))))
      | _ \<Rightarrow> Inl (no_attribute extracted ''get''))"

text \<open>
  A frame library for the default strategy \<open>drop\<close> on a one-row frame that holds a missing
  value: a frame is the data it was built from, cleaning drops the only row, and the
  frame has no records left.
\<close>

definition dropping_frames :: frame_lib where
  "dropping_frames =
     \<lparr> data_frame = (\<lambda>data columns. Inr data),
       clean = (\<lambda>df. Inr (PList [])),
       to_dict_records = (\<lambda>df. Inr df) \<rparr>"

section \<open>Properties of the component unifier\<close>

lemma bnd_Inr [simp]: "bnd (Inr x) f = f x"
  by (simp add: bnd_def)

lemma bnd_Inl [simp]: "bnd (Inl e) f = Inl e"
  by (simp add: bnd_def)

lemma bnd_eq_Inr: "bnd m f = Inr y \<longleftrightarrow> (\<exists>x. m = Inr x \<and> f x = Inr y)"
  by (cases m) simp_all

lemma bnd_eq_Inl: "bnd m f = Inl e \<longleftrightarrow> (m = Inl e \<or> (\<exists>x. m = Inr x \<and> f x = Inl e))"
  by (cases m) simp_all

text \<open>
  On a dictionary the unifier raises only if the \<open>components\<close> entry cannot be iterated;
  otherwise it returns the twelve fields, each read from the adapter result with its default.
\<close>

lemma ensure_unified_schema_dict:
  "ensure_unified_schema (PDict r) source auth_type drill_state =
     bnd (py_iter (dict_get r ''components'' (PList [])))
         (\<lambda>comps. Inr (PDict
            [(''status'', dict_get r ''status'' (PStr ''success'')),
             (''source'', PStr source),
             (''auth_type'', PStr auth_type),
             (''tables'', dict_get r ''tables'' (PList [])),
             (''kpis'', dict_get r ''kpis'' (PList [])),
             (''filters'', dict_get r ''filters'' (PList [])),
             (''visuals'', dict_get r ''visuals'' (PList [])),
             (''layout'', dict_get r ''layout'' (PDict [])),
             (''components'', PList (map add_highlights comps)),
             (''html_text'', dict_get r ''html_text'' (PStr '''')),
             (''drill_state'', dict_get r ''drill_state'' (py_or drill_state (PDict []))),
             (''error'', dict_get r ''error'' PNone)]))"
  by (simp add: ensure_unified_schema_def)

lemma ensure_unified_schema_Inr:
  assumes "ensure_unified_schema result source auth_type drill_state = Inr u"
  shows "\<exists>r comps. result = PDict r
            \<and> py_iter (dict_get r ''components'' (PList [])) = Inr comps
            \<and> field u ''status'' = Some (dict_get r ''status'' (PStr ''success''))
            \<and> field u ''source'' = Some (PStr source)
            \<and> field u ''auth_type'' = Some (PStr auth_type)
            \<and> field u ''tables'' = Some (dict_get r ''tables'' (PList []))
            \<and> field u ''kpis'' = Some (dict_get r ''kpis'' (PList []))
            \<and> field u ''filters'' = Some (dict_get r ''filters'' (PList []))
            \<and> field u ''visuals'' = Some (dict_get r ''visuals'' (PList []))
            \<and> field u ''layout'' = Some (dict_get r ''layout'' (PDict []))
            \<and> field u ''components'' = Some (PList (map add_highlights comps))
            \<and> field u ''html_text'' = Some (dict_get r ''html_text'' (PStr ''''))
            \<and> field u ''drill_state'' = Some (dict_get r ''drill_state'' (py_or drill_state (PDict [])))
            \<and> field u ''error'' = Some (dict_get r ''error'' PNone)"
proof (cases result)
  case (PDict r)
  with assms obtain comps where
    it: "py_iter (dict_get r ''components'' (PList [])) = Inr comps" and
    u: "u = PDict
            [(''status'', dict_get r ''status'' (PStr ''success'')),
             (''source'', PStr source),
             (''auth_type'', PStr auth_type),
             (''tables'', dict_get r ''tables'' (PList [])),
             (''kpis'', dict_get r ''kpis'' (PList [])),
             (''filters'', dict_get r ''filters'' (PList [])),
             (''visuals'', dict_get r ''visuals'' (PList [])),
             (''layout'', dict_get r ''layout'' (PDict [])),
             (''components'', PList (map add_highlights comps)),
             (''html_text'', dict_get r ''html_text'' (PStr '''')),
             (''drill_state'', dict_get r ''drill_state'' (py_or drill_state (PDict []))),
             (''error'', dict_get r ''error'' PNone)]"
    by (auto simp: ensure_unified_schema_dict bnd_eq_Inr)
  show ?thesis
    by (rule exI[of _ r], rule exI[of _ comps]) (simp add: PDict it u field_def)
qed (use assms in \<open>simp_all add: ensure_unified_schema_def\<close>)

text \<open>The lookups of the body raise exceptions that the \<open>except\<close> clause catches.\<close>

lemma py_subscript_raises: "py_subscript v k = Inl x \<Longrightarrow> is_exception x"
  by (cases v) (auto split: option.splits)

lemma py_get_raises: "py_get v k d = Inl x \<Longrightarrow> is_exception x"
  by (cases v) (auto simp: no_attribute_def)

text \<open>
  What \<open>extract_dashboard\<close> returns is a failure result or the unifier's output on the
  result the adapter step gave for this connection.
\<close>

lemma extract_body_Inr:
  assumes "extract_body connect ad s a ds kw = Inr d"
  shows "(\<exists>e. d = fail_result s a e)
         \<or> (\<exists>conn result. connect s a kw = Inr conn
               \<and> run_adapter ad conn s a ds kw = Inr result
               \<and> result \<noteq> PNone
               \<and> ensure_unified_schema result s a ds = Inr d)"
  using assms unfolding extract_body_def
  by (auto simp: bnd_eq_Inr split: if_splits)

lemma extract_dashboard_Inr:
  assumes "extract_dashboard connect ad s a ds kw = Inr d"
  shows "(\<exists>e. d = fail_result s a e)
         \<or> (\<exists>conn result. connect s a kw = Inr conn
               \<and> run_adapter ad conn s a ds kw = Inr result
               \<and> result \<noteq> PNone
               \<and> ensure_unified_schema result s a ds = Inr d)"
proof (cases "extract_body connect ad s a ds kw")
  case (Inl e)
  with assms show ?thesis by (auto simp: extract_dashboard_def split: if_splits)
next
  case (Inr r)
  with assms have "r = d" by (simp add: extract_dashboard_def)
  with Inr extract_body_Inr[of connect ad s a ds kw d] show ?thesis by simp
qed

lemma extract_dashboard_Inl:
  "extract_dashboard connect ad s a ds kw = Inl x
     \<longleftrightarrow> (extract_body connect ad s a ds kw = Inl x \<and> \<not> is_exception x)"
  by (cases "extract_body connect ad s a ds kw") (auto simp: extract_dashboard_def)

lemma extract_dashboard_caught:
  "extract_body connect ad s a ds kw = Inl e \<Longrightarrow> is_exception e \<Longrightarrow>
     extract_dashboard connect ad s a ds kw = Inr (fail_result s a (PStr (str_exn e)))"
  by (simp add: extract_dashboard_def)

lemma run_adapter_unknown:
  "\<not> (s \<in> {''powerbi'', ''tableau''} \<and> a \<in> {''private'', ''public''}) \<Longrightarrow>
     run_adapter ad conn s a ds kw = Inr PNone"
  by (auto simp: run_adapter_def)

lemma extract_body_unknown:
  assumes "\<not> (s \<in> {''powerbi'', ''tableau''} \<and> a \<in> {''private'', ''public''})"
  shows "(\<exists>err. extract_body connect ad s a ds kw = Inr (fail_result s a err))
         \<or> (\<exists>x. extract_body connect ad s a ds kw = Inl x
                 \<and> (is_exception x \<or> connect s a kw = Inl x))"
proof (cases "connect s a kw")
  case (Inl x)
  then show ?thesis by (simp add: extract_body_def)
next
  case (Inr conn)
  show ?thesis
  proof (cases "py_subscript conn ''status''")
    case (Inl x)
    with Inr py_subscript_raises[OF Inl] show ?thesis by (simp add: extract_body_def)
  next
    case st: (Inr status)
    show ?thesis
    proof (cases "status = PStr ''success''")
      case True
      with Inr st run_adapter_unknown[OF assms] show ?thesis
        by (auto simp: extract_body_def)
    next
      case False
      show ?thesis
      proof (cases "py_get conn ''error'' PNone")
        case (Inl x)
        with Inr st False py_get_raises[OF Inl] show ?thesis by (simp add: extract_body_def)
      next
        case e: (Inr err)
        with Inr st False show ?thesis by (auto simp: extract_body_def)
      qed
    qed
  qed
qed

text \<open>
  Claim C2, as stated, fails. An exception outside \<open>Exception\<close> that the connector raises
  leaves \<open>extract_dashboard\<close>; and for an exception without a message the error of the
  failure result is the empty string.
\<close>

theorem uncaught_and_empty_error_counterexample:
  "extract_dashboard (connect_giving (Inl (SystemExit ''1''))) (adapters_giving (Inr PNone))
       ''tableau'' ''public'' PNone []
     = Inl (SystemExit ''1'')
   \<and> extract_dashboard (connect_giving (Inl (OtherError ''''))) (adapters_giving (Inr PNone))
       ''tableau'' ''public'' PNone []
     = Inr (PDict
         [(''status'', PStr ''failed''),
          (''source'', PStr ''tableau''),
          (''auth_type'', PStr ''public''),
          (''tables'', PList []),
          (''kpis'', PList []),
          (''filters'', PList []),
          (''visuals'', PList []),
          (''layout'', PDict []),
          (''components'', PList []),
          (''html_text'', PStr ''''),
          (''error'', PStr '''')])"
  by (simp add: extract_dashboard_def extract_body_def connect_giving_def fail_result_def)

text \<open>
  Claim C2, amended. Whatever exception derived from \<open>Exception\<close> the connector or the
  adapter step raises, and whatever else of that kind the body of \<open>extract_dashboard\<close>
  raises, the call returns the failure dashboard: status \<open>failed\<close>, the given source and
  auth type, empty tables, kpis, filters, visuals, layout, components and html\_text, and
  as error the text \<open>str(e)\<close> of the exception, which may be empty. No exception derived
  from \<open>Exception\<close> leaves the call; one that is not, leaves it as it is. A source and
  auth type outside the four known combinations gives the failure dashboard with some
  error, unless the connector raises an exception outside \<open>Exception\<close>.
\<close>

theorem extract_dashboard_contains_exceptions:
  "(is_exception e
      \<and> (connect s a kw = Inl e
          \<or> (\<exists>conn. connect s a kw = Inr conn
                \<and> py_subscript conn ''status'' = Inr (PStr ''success'')
                \<and> run_adapter ad conn s a ds kw = Inl e)
          \<or> extract_body connect ad s a ds kw = Inl e) \<longrightarrow>
      extract_dashboard connect ad s a ds kw
        = Inr (PDict
            [(''status'', PStr ''failed''),
             (''source'', PStr s),
             (''auth_type'', PStr a),
             (''tables'', PList []),
             (''kpis'', PList []),
             (''filters'', PList []),
             (''visuals'', PList []),
             (''layout'', PDict []),
             (''components'', PList []),
             (''html_text'', PStr ''''),
             (''error'', PStr (str_exn e))]))
   \<and> (extract_dashboard connect ad s a ds kw = Inl x \<longrightarrow>
        \<not> is_exception x \<and> extract_body connect ad s a ds kw = Inl x)
   \<and> (\<not> is_exception x \<and> extract_body connect ad s a ds kw = Inl x \<longrightarrow>
        extract_dashboard connect ad s a ds kw = Inl x)
   \<and> (\<not> (s \<in> {''powerbi'', ''tableau''} \<and> a \<in> {''private'', ''public''}) \<longrightarrow>
        (\<exists>err. extract_dashboard connect ad s a ds kw
           = Inr (PDict
               [(''status'', PStr ''failed''),
                (''source'', PStr s),
                (''auth_type'', PStr a),
                (''tables'', PList []),
                (''kpis'', PList []),
                (''filters'', PList []),
                (''visuals'', PList []),
                (''layout'', PDict []),
                (''components'', PList []),
                (''html_text'', PStr ''''),
                (''error'', err)]))
        \<or> (\<exists>y. \<not> is_exception y \<and> connect s a kw = Inl y
               \<and> extract_dashboard connect ad s a ds kw = Inl y))"
proof (intro conjI impI)
  assume h: "is_exception e
      \<and> (connect s a kw = Inl e
          \<or> (\<exists>conn. connect s a kw = Inr conn
                \<and> py_subscript conn ''status'' = Inr (PStr ''success'')
                \<and> run_adapter ad conn s a ds kw = Inl e)
          \<or> extract_body connect ad s a ds kw = Inl e)"
  then have "extract_body connect ad s a ds kw = Inl e"
    by (auto simp: extract_body_def)
  with h have "extract_dashboard connect ad s a ds kw = Inr (fail_result s a (PStr (str_exn e)))"
    by (simp add: extract_dashboard_caught)
  then show "extract_dashboard connect ad s a ds kw
        = Inr (PDict
            [(''status'', PStr ''failed''),
             (''source'', PStr s),
             (''auth_type'', PStr a),
             (''tables'', PList []),
             (''kpis'', PList []),
             (''filters'', PList []),
             (''visuals'', PList []),
             (''layout'', PDict []),
             (''components'', PList []),
             (''html_text'', PStr ''''),
             (''error'', PStr (str_exn e))])"
    by (simp add: fail_result_def)
next
  assume "extract_dashboard connect ad s a ds kw = Inl x"
  then show "\<not> is_exception x" by (simp add: extract_dashboard_Inl)
next
  assume "extract_dashboard connect ad s a ds kw = Inl x"
  then show "extract_body connect ad s a ds kw = Inl x" by (simp add: extract_dashboard_Inl)
next
  assume "\<not> is_exception x \<and> extract_body connect ad s a ds kw = Inl x"
  then show "extract_dashboard connect ad s a ds kw = Inl x" by (simp add: extract_dashboard_Inl)
next
  assume u: "\<not> (s \<in> {''powerbi'', ''tableau''} \<and> a \<in> {''private'', ''public''})"
  from extract_body_unknown[OF u, of connect ad ds kw]
  consider (failure) err where "extract_body connect ad s a ds kw = Inr (fail_result s a err)"
    | (raised) y where "extract_body connect ad s a ds kw = Inl y" "is_exception y"
    | (escaped) y where "extract_body connect ad s a ds kw = Inl y" "\<not> is_exception y"
        "connect s a kw = Inl y"
    by blast
  then show "(\<exists>err. extract_dashboard connect ad s a ds kw
           = Inr (PDict
               [(''status'', PStr ''failed''),
                (''source'', PStr s),
                (''auth_type'', PStr a),
                (''tables'', PList []),
                (''kpis'', PList []),
                (''filters'', PList []),
                (''visuals'', PList []),
                (''layout'', PDict []),
                (''components'', PList []),
                (''html_text'', PStr ''''),
                (''error'', err)]))
        \<or> (\<exists>y. \<not> is_exception y \<and> connect s a kw = Inl y
               \<and> extract_dashboard connect ad s a ds kw = Inl y)"
  proof cases
    case failure
    then have "extract_dashboard connect ad s a ds kw = Inr (fail_result s a err)"
      by (simp add: extract_dashboard_def)
    then show ?thesis by (auto simp: fail_result_def)
  next
    case raised
    then have "extract_dashboard connect ad s a ds kw = Inr (fail_result s a (PStr (str_exn y)))"
      by (simp add: extract_dashboard_caught)
    then show ?thesis by (auto simp: fail_result_def)
  next
    case escaped
    then have "extract_dashboard connect ad s a ds kw = Inl y"
      by (simp add: extract_dashboard_Inl)
    with escaped show ?thesis by blast
  qed
qed

theorem extract_dashboard_contains_exceptions_witness:
  "is_exception (OtherError ''timed out'')
   \<and> connect_giving (Inl (OtherError ''timed out'')) ''tableau'' ''public'' [] = Inl (OtherError ''timed out'')
   \<and> extract_dashboard (connect_giving (Inl (OtherError ''timed out''))) (adapters_giving (Inr PNone))
         ''tableau'' ''public'' PNone []
       = Inr (PDict
            [(''status'', PStr ''failed''),
             (''source'', PStr ''tableau''),
             (''auth_type'', PStr ''public''),
             (''tables'', PList []),
             (''kpis'', PList []),
             (''filters'', PList []),
             (''visuals'', PList []),
             (''layout'', PDict []),
             (''components'', PList []),
             (''html_text'', PStr ''''),
             (''error'', PStr ''timed out'')])
   \<and> is_exception (ValueError ''bad view'')
   \<and> run_adapter (adapters_giving (Inl (ValueError ''bad view''))) connected
         ''tableau'' ''private'' PNone [] = Inl (ValueError ''bad view'')
   \<and> extract_dashboard (connect_giving (Inr connected)) (adapters_giving (Inl (ValueError ''bad view'')))
         ''tableau'' ''private'' PNone []
       = Inr (PDict
            [(''status'', PStr ''failed''),
             (''source'', PStr ''tableau''),
             (''auth_type'', PStr ''private''),
             (''tables'', PList []),
             (''kpis'', PList []),
             (''filters'', PList []),
             (''visuals'', PList []),
             (''layout'', PDict []),
             (''components'', PList []),
             (''html_text'', PStr ''''),
             (''error'', PStr ''bad view'')])
   \<and> \<not> is_exception (KeyboardInterrupt '''')
   \<and> extract_body (connect_giving (Inr connected)) (adapters_giving (Inl (KeyboardInterrupt '''')))
         ''tableau'' ''private'' PNone [] = Inl (KeyboardInterrupt '''')
   \<and> extract_dashboard (connect_giving (Inr connected)) (adapters_giving (Inl (KeyboardInterrupt '''')))
         ''tableau'' ''private'' PNone [] = Inl (KeyboardInterrupt '''')"
proof -
  have c: "connect_giving (Inl (OtherError ''timed out'')) ''tableau'' ''public'' []
             = Inl (OtherError ''timed out'')"
    by (simp add: connect_giving_def)
  have k: "connect_giving (Inr connected) ''tableau'' ''private'' [] = Inr connected"
    by (simp add: connect_giving_def)
  have st: "py_subscript connected ''status'' = Inr (PStr ''success'')"
    by (simp add: connected_def)
  have r: "run_adapter (adapters_giving (Inl (ValueError ''bad view''))) connected
             ''tableau'' ''private'' PNone [] = Inl (ValueError ''bad view'')"
    by (simp add: run_adapter_def adapters_giving_def connected_def)
  have b: "extract_body (connect_giving (Inr connected)) (adapters_giving (Inl (KeyboardInterrupt '''')))
         ''tableau'' ''private'' PNone [] = Inl (KeyboardInterrupt '''')"
    by (simp add: extract_body_def connect_giving_def run_adapter_def adapters_giving_def
          connected_def)
  have e1: "is_exception (OtherError ''timed out'')" by simp
  have e2: "is_exception (ValueError ''bad view'')" by simp
  have e3: "\<not> is_exception (KeyboardInterrupt '''')" by simp
  from extract_dashboard_contains_exceptions
        [of "OtherError ''timed out''" "connect_giving (Inl (OtherError ''timed out''))"
            "''tableau''" "''public''" "[]" "adapters_giving (Inr PNone)" PNone] e1 c
  have w1: "extract_dashboard (connect_giving (Inl (OtherError ''timed out''))) (adapters_giving (Inr PNone))
         ''tableau'' ''public'' PNone []
       = Inr (PDict
            [(''status'', PStr ''failed''),
             (''source'', PStr ''tableau''),
             (''auth_type'', PStr ''public''),
             (''tables'', PList []),
             (''kpis'', PList []),
             (''filters'', PList []),
             (''visuals'', PList []),
             (''layout'', PDict []),
             (''components'', PList []),
             (''html_text'', PStr ''''),
             (''error'', PStr ''timed out'')])"
    by simp
  from k st r have ex: "\<exists>conn. connect_giving (Inr connected) ''tableau'' ''private'' [] = Inr conn
                \<and> py_subscript conn ''status'' = Inr (PStr ''success'')
                \<and> run_adapter (adapters_giving (Inl (ValueError ''bad view''))) conn
                      ''tableau'' ''private'' PNone [] = Inl (ValueError ''bad view'')"
    by blast
  from extract_dashboard_contains_exceptions
        [of "ValueError ''bad view''" "connect_giving (Inr connected)"
            "''tableau''" "''private''" "[]" "adapters_giving (Inl (ValueError ''bad view''))" PNone] e2 ex
  have w2: "extract_dashboard (connect_giving (Inr connected)) (adapters_giving (Inl (ValueError ''bad view'')))
         ''tableau'' ''private'' PNone []
       = Inr (PDict
            [(''status'', PStr ''failed''),
             (''source'', PStr ''tableau''),
             (''auth_type'', PStr ''private''),
             (''tables'', PList []),
             (''kpis'', PList []),
             (''filters'', PList []),
             (''visuals'', PList []),
             (''layout'', PDict []),
             (''components'', PList []),
             (''html_text'', PStr ''''),
             (''error'', PStr ''bad view'')])"
    by simp
  from extract_dashboard_contains_exceptions
        [of _ "connect_giving (Inr connected)"
            "''tableau''" "''private''" "[]" "adapters_giving (Inl (KeyboardInterrupt ''''))" PNone
            "KeyboardInterrupt ''''"] e3 b
  have w3: "extract_dashboard (connect_giving (Inr connected)) (adapters_giving (Inl (KeyboardInterrupt '''')))
         ''tableau'' ''private'' PNone [] = Inl (KeyboardInterrupt '''')"
    by blast
  from e1 c w1 e2 r w2 e3 b w3 show ?thesis by blast
qed

text \<open>
  Claim C1 against the code: when the connection fails, with the failure dictionary
  \<open>connect_bi_dashboard\<close> builds, \<open>extract_dashboard\<close> returns the dashboard of
  \<open>_fail_result\<close>. It has status \<open>failed\<close>, the connector's error and empty containers,
  as the claim says, but no \<open>drill_state\<close> key: one of the schema fields is missing.
  The same call with a connection and an adapter result goes through the unifier and
  has the key.
\<close>

theorem failed_extraction_has_no_drill_state:
  "extract_dashboard
     (connect_giving (Inr (PDict
        [(''status'', PStr ''failed''),
         (''source'', PStr ''powerbi''),
         (''auth_type'', PStr ''private''),
         (''client'', PNone),
         (''metadata'', PDict []),
         (''connection_info'', PDict []),
         (''error'', PDict [(''type'', PStr ''exception''), (''message'', PStr ''auth expired'')])])))
     (adapters_giving (Inr PNone)) ''powerbi'' ''private'' PNone []
   = Inr (PDict
       [(''status'', PStr ''failed''),
        (''source'', PStr ''powerbi''),
        (''auth_type'', PStr ''private''),
        (''tables'', PList []),
        (''kpis'', PList []),
        (''filters'', PList []),
        (''visuals'', PList []),
        (''layout'', PDict []),
        (''components'', PList []),
        (''html_text'', PStr ''''),
        (''error'', PDict [(''type'', PStr ''exception''), (''message'', PStr ''auth expired'')])])
   \<and> result_field
        (extract_dashboard
           (connect_giving (Inr (PDict
              [(''status'', PStr ''failed''),
               (''source'', PStr ''powerbi''),
               (''auth_type'', PStr ''private''),
               (''client'', PNone),
               (''metadata'', PDict []),
               (''connection_info'', PDict []),
               (''error'', PDict [(''type'', PStr ''exception''), (''message'', PStr ''auth expired'')])])))
           (adapters_giving (Inr PNone)) ''powerbi'' ''private'' PNone []) ''status''
       = Some (PStr ''failed'')
   \<and> result_field
        (extract_dashboard
           (connect_giving (Inr (PDict
              [(''status'', PStr ''failed''),
               (''source'', PStr ''powerbi''),
               (''auth_type'', PStr ''private''),
               (''client'', PNone),
               (''metadata'', PDict []),
               (''connection_info'', PDict []),
               (''error'', PDict [(''type'', PStr ''exception''), (''message'', PStr ''auth expired'')])])))
           (adapters_giving (Inr PNone)) ''powerbi'' ''private'' PNone []) ''drill_state''
       = None
   \<and> result_field
        (extract_dashboard (connect_giving (Inr connected))
           (adapters_giving (Inr (PDict [(''status'', PStr ''success''), (''data'', PStr ''a,b'')])))
           ''tableau'' ''private'' PNone []) ''drill_state''
       = Some (PDict [])"
  by (simp add: extract_dashboard_def extract_body_def connect_giving_def connected_def
        run_adapter_def adapters_giving_def ensure_unified_schema_dict dict_get_def
        fail_result_def field_def result_field_def py_or_def)

text \<open>
  Apart from that key the schema is complete on both paths: every dashboard
  \<open>extract_dashboard\<close> returns has the other eleven fields, and one assembled from an
  adapter result has \<open>drill_state\<close> as well.
\<close>

lemma extract_dashboard_fields:
  assumes "extract_dashboard connect ad s a ds kw = Inr d"
  shows "field d ''status'' \<noteq> None \<and> field d ''source'' = Some (PStr s)
         \<and> field d ''auth_type'' = Some (PStr a) \<and> field d ''tables'' \<noteq> None
         \<and> field d ''kpis'' \<noteq> None \<and> field d ''filters'' \<noteq> None
         \<and> field d ''visuals'' \<noteq> None \<and> field d ''layout'' \<noteq> None
         \<and> field d ''components'' \<noteq> None \<and> field d ''html_text'' \<noteq> None
         \<and> field d ''error'' \<noteq> None
         \<and> ((\<exists>e. d = fail_result s a e) \<or> field d ''drill_state'' \<noteq> None)"
proof -
  from extract_dashboard_Inr[OF assms]
  consider (failure) e where "d = fail_result s a e"
    | (unified) result where "ensure_unified_schema result s a ds = Inr d"
    by blast
  then show ?thesis
  proof cases
    case failure
    then show ?thesis by (simp add: fail_result_def field_def)
  next
    case unified
    from ensure_unified_schema_Inr[OF unified] show ?thesis by auto
  qed
qed

lemma add_highlights_dict:
  assumes "add_highlights (PDict c) = PDict c'"
  shows "map_of c' ''highlights'' = Some (dict_get c ''highlights'' (PList []))
     \<and> (\<forall>k. k \<noteq> ''highlights'' \<longrightarrow> map_of c' k = map_of c k)"
proof (cases "dict_has c ''highlights''")
  case True
  then have "map_of c ''highlights'' \<noteq> None"
    by (simp add: dict_has_def map_of_eq_None_iff)
  then obtain v where "map_of c ''highlights'' = Some v" by blast
  moreover from True assms have "c' = c" by simp
  ultimately show ?thesis by (simp add: dict_get_def)
next
  case False
  then have "map_of c ''highlights'' = None"
    by (simp add: dict_has_def map_of_eq_None_iff)
  moreover from False assms have "c' = AList.update ''highlights'' (PList []) c" by simp
  ultimately show ?thesis by (simp add: dict_get_def update_conv')
qed

lemma add_highlights_has:
  "add_highlights v = PDict c' \<Longrightarrow> dict_has c' ''highlights''"
  by (cases v) (auto simp: dict_has_def dom_update split: if_splits)

lemma add_highlights_other:
  "(\<forall>c. v \<noteq> PDict c) \<Longrightarrow> add_highlights v = v"
  by (cases v) simp_all

text \<open>
  Claim C3 against the code: given \<open>components\<close> as a mapping from names to component
  objects, the shape \<open>PowerBIExtractor\<close> returns, the unifier accepts the result as
  successful and emits the names. None of the emitted components is a record with a
  \<open>highlights\<close> field, and the component that came without one got no default.
\<close>

theorem mapping_components_expose_no_highlights:
  "ensure_unified_schema
     (PDict [(''status'', PStr ''success''),
             (''components'',
              PDict [(''table_1'', PDict [(''type'', PStr ''table''), (''fields'', PList []),
                                          (''rows'', PList []), (''highlights'', PList [])]),
                     (''kpi_1'', PDict [(''type'', PStr ''kpi''), (''value'', PInt 7)])]),
             (''error'', PNone)])
     ''powerbi'' ''public'' PNone
   = Inr (PDict
       [(''status'', PStr ''success''),
        (''source'', PStr ''powerbi''),
        (''auth_type'', PStr ''public''),
        (''tables'', PList []),
        (''kpis'', PList []),
        (''filters'', PList []),
        (''visuals'', PList []),
        (''layout'', PDict []),
        (''components'', PList [PStr ''table_1'', PStr ''kpi_1'']),
        (''html_text'', PStr ''''),
        (''drill_state'', PDict []),
        (''error'', PNone)])
   \<and> field (PStr ''table_1'') ''highlights'' = None
   \<and> field (PStr ''kpi_1'') ''highlights'' = None"
  by (simp add: ensure_unified_schema_dict dict_get_def py_or_def field_def)

text \<open>
  On components given as a list the unifier does what the claim says: the result has
  one component per entry, in order; an entry that is a dictionary keeps its fields and
  has as \<open>highlights\<close> its own, or the empty list if it had none.
\<close>

lemma list_components_have_highlights:
  assumes "ensure_unified_schema result source auth_type drill_state = Inr u"
  shows "\<exists>cs. field u ''components'' = Some (PList cs)
           \<and> (\<forall>c. PDict c \<in> set cs \<longrightarrow> dict_has c ''highlights'')
           \<and> (\<forall>comps. field result ''components'' = Some (PList comps) \<longrightarrow>
                length cs = length comps
                \<and> (\<forall>i < length comps.
                      (\<forall>c. comps ! i = PDict c \<longrightarrow>
                         (\<exists>c'. cs ! i = PDict c'
                            \<and> map_of c' ''highlights'' = Some (dict_get c ''highlights'' (PList []))
                            \<and> (\<forall>k. k \<noteq> ''highlights'' \<longrightarrow> map_of c' k = map_of c k)))
                      \<and> ((\<forall>c. comps ! i \<noteq> PDict c) \<longrightarrow> cs ! i = comps ! i)))"
proof -
  from ensure_unified_schema_Inr[OF assms] obtain r items where
    r: "result = PDict r" and
    it: "py_iter (dict_get r ''components'' (PList [])) = Inr items" and
    cs: "field u ''components'' = Some (PList (map add_highlights items))"
    by blast
  have has: "\<forall>c. PDict c \<in> set (map add_highlights items) \<longrightarrow> dict_has c ''highlights''"
    using add_highlights_has by (auto simp: image_iff)
  have lists: "\<forall>comps. field result ''components'' = Some (PList comps) \<longrightarrow>
                length (map add_highlights items) = length comps
                \<and> (\<forall>i < length comps.
                      (\<forall>c. comps ! i = PDict c \<longrightarrow>
                         (\<exists>c'. map add_highlights items ! i = PDict c'
                            \<and> map_of c' ''highlights'' = Some (dict_get c ''highlights'' (PList []))
                            \<and> (\<forall>k. k \<noteq> ''highlights'' \<longrightarrow> map_of c' k = map_of c k)))
                      \<and> ((\<forall>c. comps ! i \<noteq> PDict c) \<longrightarrow> map add_highlights items ! i = comps ! i))"
  proof (intro allI impI)
    fix comps
    assume "field result ''components'' = Some (PList comps)"
    with r it have eq: "items = comps" by (simp add: field_def dict_get_def)
    show "length (map add_highlights items) = length comps
                \<and> (\<forall>i < length comps.
                      (\<forall>c. comps ! i = PDict c \<longrightarrow>
                         (\<exists>c'. map add_highlights items ! i = PDict c'
                            \<and> map_of c' ''highlights'' = Some (dict_get c ''highlights'' (PList []))
                            \<and> (\<forall>k. k \<noteq> ''highlights'' \<longrightarrow> map_of c' k = map_of c k)))
                      \<and> ((\<forall>c. comps ! i \<noteq> PDict c) \<longrightarrow> map add_highlights items ! i = comps ! i))"
    proof (intro conjI allI impI)
      show "length (map add_highlights items) = length comps" by (simp add: eq)
    next
      fix i c
      assume i: "i < length comps" and d: "comps ! i = PDict c"
      obtain c' where c': "add_highlights (PDict c) = PDict c'"
        by (cases "dict_has c ''highlights''") simp_all
      from add_highlights_dict[OF c'] c' i d
      show "\<exists>c'. map add_highlights items ! i = PDict c'
                \<and> map_of c' ''highlights'' = Some (dict_get c ''highlights'' (PList []))
                \<and> (\<forall>k. k \<noteq> ''highlights'' \<longrightarrow> map_of c' k = map_of c k)"
        by (simp add: eq)
    next
      fix i
      assume "i < length comps" and "\<forall>c. comps ! i \<noteq> PDict c"
      then show "map add_highlights items ! i = comps ! i"
        by (simp add: eq add_highlights_other)
    qed
  qed
  from cs has lists show ?thesis by blast
qed

text \<open>
  Claim C5, as stated, fails: when the adapter result has a \<open>drill_state\<close> of its own, that
  one is emitted and the caller's is dropped.
\<close>

theorem adapter_drill_state_wins_counterexample:
  "result_field
     (ensure_unified_schema
        (PDict [(''status'', PStr ''success''),
                (''drill_state'', PDict [(''sales'', PList [PStr ''year''])])])
        ''tableau'' ''public'' (PDict [(''sales'', PList [PStr ''year'', PStr ''quarter''])]))
     ''drill_state''
   = Some (PDict [(''sales'', PList [PStr ''year''])])
   \<and> PDict [(''sales'', PList [PStr ''year''])]
       \<noteq> PDict [(''sales'', PList [PStr ''year'', PStr ''quarter''])]"
  by (simp add: result_field_def field_def ensure_unified_schema_dict dict_get_def)

text \<open>
  Claim C5, amended. The \<open>drill_state\<close> of a dashboard assembled from an adapter result is
  the adapter's own \<open>drill_state\<close> when the result has one; only when it has none is it the
  caller's, or the empty mapping when the caller passed \<open>None\<close> or an empty one.
\<close>

theorem unified_drill_state:
  assumes "ensure_unified_schema result source auth_type drill_state = Inr u"
  shows "field u ''drill_state'' =
           Some (case field result ''drill_state'' of
                   Some adapter_state \<Rightarrow> adapter_state
                 | None \<Rightarrow> if truthy drill_state then drill_state else PDict [])"
proof -
  from ensure_unified_schema_Inr[OF assms] obtain r where
    "result = PDict r"
    "field u ''drill_state'' = Some (dict_get r ''drill_state'' (py_or drill_state (PDict [])))"
    by blast
  then show ?thesis
    by (simp add: field_def dict_get_def py_or_def split: option.splits)
qed

theorem unified_drill_state_witness:
  "ensure_unified_schema (PDict [(''status'', PStr ''success'')]) ''tableau'' ''private''
       (PDict [(''sales'', PList [PStr ''year''])])
     = Inr (PDict
       [(''status'', PStr ''success''), (''source'', PStr ''tableau''),
        (''auth_type'', PStr ''private''), (''tables'', PList []), (''kpis'', PList []),
        (''filters'', PList []), (''visuals'', PList []), (''layout'', PDict []),
        (''components'', PList []), (''html_text'', PStr ''''),
        (''drill_state'', PDict [(''sales'', PList [PStr ''year''])]), (''error'', PNone)])
   \<and> field (PDict
       [(''status'', PStr ''success''), (''source'', PStr ''tableau''),
        (''auth_type'', PStr ''private''), (''tables'', PList []), (''kpis'', PList []),
        (''filters'', PList []), (''visuals'', PList []), (''layout'', PDict []),
        (''components'', PList []), (''html_text'', PStr ''''),
        (''drill_state'', PDict [(''sales'', PList [PStr ''year''])]), (''error'', PNone)])
       ''drill_state''
     = Some (PDict [(''sales'', PList [PStr ''year''])])"
proof -
  have run: "ensure_unified_schema (PDict [(''status'', PStr ''success'')]) ''tableau'' ''private''
       (PDict [(''sales'', PList [PStr ''year''])])
     = Inr (PDict
       [(''status'', PStr ''success''), (''source'', PStr ''tableau''),
        (''auth_type'', PStr ''private''), (''tables'', PList []), (''kpis'', PList []),
        (''filters'', PList []), (''visuals'', PList []), (''layout'', PDict []),
        (''components'', PList []), (''html_text'', PStr ''''),
        (''drill_state'', PDict [(''sales'', PList [PStr ''year''])]), (''error'', PNone)])"
    by (simp add: ensure_unified_schema_dict dict_get_def py_or_def)
  from unified_drill_state[OF run] run show ?thesis
    by (simp add: field_def)
qed

text \<open>
  Claim C7 against the code: given \<open>components\<close> as a mapping from names to component
  objects, the loop of \<open>_ensure_unified_schema\<close> visits the keys. The emitted components
  are the names; the component objects are dropped.
\<close>

theorem components_mapping_emits_keys:
  "result_field
     (ensure_unified_schema
        (PDict [(''status'', PStr ''success''),
                (''components'',
                 PDict [(''table_1'', PDict [(''type'', PStr ''table''), (''highlights'', PList [])]),
                        (''kpi_1'', PDict [(''type'', PStr ''kpi''), (''value'', PInt 7)])])])
        ''powerbi'' ''public'' PNone) ''components''
   = Some (PList [PStr ''table_1'', PStr ''kpi_1''])"
  by (simp add: result_field_def field_def ensure_unified_schema_dict dict_get_def)

section \<open>Properties of the drill-up endpoint\<close>

text \<open>
  Claim C4 against the code: for a visual of the snapshot whose drill state is empty, and
  for one that has no drill state yet, \<open>drill_up\<close> pops from the empty list; the IndexError
  leaves the endpoint, no failure payload is returned.
\<close>

theorem drill_up_empty_state_raises:
  "drill_up (connect_giving (Inr connected))
     (adapters_giving (Inr (PDict
        [(''status'', PStr ''success''),
         (''visuals'', PDict [(''v1'', PDict [(''name'', PStr ''sales''),
                                               (''drill_state'', PList [])])])])))
     ''sales'' ''tableau'' ''private'' []
   = Inl (IndexError ''pop from empty list'')
   \<and> drill_up (connect_giving (Inr connected))
     (adapters_giving (Inr (PDict
        [(''status'', PStr ''success''),
         (''visuals'', PDict [(''v1'', PDict [(''name'', PStr ''sales'')])])])))
     ''sales'' ''tableau'' ''private'' []
   = Inl (IndexError ''pop from empty list'')"
  by (simp add: drill_up_def extract_dashboard_def extract_body_def connect_giving_def
        connected_def run_adapter_def adapters_giving_def ensure_unified_schema_dict
        dict_get_def dict_has_def)

text \<open>
  With the visuals as a list, which is what the unifier emits when the adapter gave none,
  the endpoint raises before it reaches the loop.
\<close>

lemma drill_up_list_visuals_raises:
  "drill_up (connect_giving (Inr connected))
     (adapters_giving (Inr (PDict [(''status'', PStr ''success'')])))
     ''sales'' ''tableau'' ''private'' []
   = Inl (AttributeError (quoted ''list'' @ '' object has no attribute '' @ quoted ''values''))"
  by (simp add: drill_up_def extract_dashboard_def extract_body_def connect_giving_def
        connected_def run_adapter_def adapters_giving_def ensure_unified_schema_dict
        dict_get_def no_attribute_def)

section \<open>Properties of the data cleaner\<close>

text \<open>
  Claim C8. With a strategy other than \<open>drop\<close>, \<open>fill_mean\<close> and \<open>fill_constant\<close>,
  \<open>handle_missing_values\<close> raises the error that names the unsupported strategy (a
  \<open>ValueError\<close> in the code) instead of returning a frame; with one of the three it
  returns a frame.
\<close>

theorem handle_missing_values_strategy:
  "(missing_value_strategy \<notin> {''drop'', ''fill_mean'', ''fill_constant''} \<longrightarrow>
      handle_missing_values ops missing_value_strategy fill_constant df
        = Inl (ValueError (''Unsupported missing value strategy: '' @ missing_value_strategy)))
   \<and> (missing_value_strategy \<in> {''drop'', ''fill_mean'', ''fill_constant''} \<longrightarrow>
        (\<exists>df'. handle_missing_values ops missing_value_strategy fill_constant df = Inr df'))"
  by (auto simp: handle_missing_values_def Let_def)

theorem handle_missing_values_strategy_witness:
  "''median'' \<notin> {''drop'', ''fill_mean'', ''fill_constant''}
   \<and> handle_missing_values row_ops ''median'' (PInt 0) [[PInt 1, PNone], [PInt 2, PInt 3]]
       = Inl (ValueError ''Unsupported missing value strategy: median'')
   \<and> ''drop'' \<in> {''drop'', ''fill_mean'', ''fill_constant''}
   \<and> handle_missing_values row_ops ''drop'' (PInt 0) [[PInt 1, PNone], [PInt 2, PInt 3]]
       = Inr [[PInt 2, PInt 3]]"
proof -
  have a: "''median'' \<notin> {''drop'', ''fill_mean'', ''fill_constant''}" by simp
  have b: "''drop'' \<in> {''drop'', ''fill_mean'', ''fill_constant''}" by simp
  have c: "handle_missing_values row_ops ''drop'' (PInt 0) [[PInt 1, PNone], [PInt 2, PInt 3]]
       = Inr [[PInt 2, PInt 3]]"
    by (simp add: handle_missing_values_def row_ops_def)
  from handle_missing_values_strategy
         [of "''median''" row_ops "PInt 0" "[[PInt 1, PNone], [PInt 2, PInt 3]]"] a
  have "handle_missing_values row_ops ''median'' (PInt 0) [[PInt 1, PNone], [PInt 2, PInt 3]]
       = Inl (ValueError ''Unsupported missing value strategy: median'')"
    by simp
  with a b c show ?thesis by blast
qed






lemma clean_unified_dashboard_data_Inr:
  assumes "clean_unified_dashboard_data fr extracted = Inr cleaned"
  shows "\<exists>e t k f v c. extracted = PDict e \<and>
           cleaned = PDict
            [(''tables'', PList t),
             (''kpis'', PList k),
             (''filters'', PList f),
             (''visuals'', PList v),
             (''layout'', dict_get e ''layout'' (PDict [])),
             (''components'', PList c),
             (''html_text'', dict_get e ''html_text'' (PStr '''')),
             (''error'', dict_get e ''error'' PNone),
             (''source'', dict_get e ''source'' (PStr '''')),
             (''auth_type'', dict_get e ''auth_type'' (PStr '''')),
             (''drill_state'', dict_get e ''drill_state'' (PDict []))]"
proof (cases extracted)
  case (PDict e)
  with assms show ?thesis
    unfolding clean_unified_dashboard_data_def
    by (simp add: bnd_eq_Inr) blast
qed (use assms in \<open>simp_all add: clean_unified_dashboard_data_def\<close>)

text \<open>
  Claim C10, as stated, fails: the call does not return for every input. With the
  default strategy \<open>drop\<close>, a component that holds a missing value (an image without an
  \<open>alt\<close> text) loses its only row in cleaning, and \<open>to_dict(orient="records")[0]\<close>
  raises IndexError.
\<close>

theorem clean_unified_dashboard_data_raises_counterexample:
  "clean_unified_dashboard_data dropping_frames
     (PDict [(''status'', PStr ''success''),
             (''components'', PList [PDict [(''type'', PStr ''visual''),
                                           (''visual_type'', PStr ''image''),
                                           (''src'', PStr ''chart.png''),
                                           (''alt'', PNone),
                                           (''highlights'', PList [])]]),
             (''html_text'', PStr ''text'')])
   = Inl (IndexError ''list index out of range'')"
  by (simp add: clean_unified_dashboard_data_def clean_component_def dropping_frames_def
        dict_get_def dict_has_def)

text \<open>
  Claim C10, amended. Whenever \<open>clean_unified_dashboard_data\<close> returns, the html\_text,
  error, source, auth\_type, drill\_state and layout of the result are those of the
  input, or the defaults empty string, \<open>None\<close>, empty string, empty string, empty mapping
  and empty mapping where the input has none; the only other entries of the result are
  tables, kpis, filters, visuals and components. On the empty dashboard it returns the
  defaults, whatever the cleaning pipeline is.
\<close>

theorem clean_unified_dashboard_data_frame:
  "(clean_unified_dashboard_data fr extracted = Inr cleaned \<longrightarrow>
      (\<exists>e. extracted = PDict e
         \<and> field cleaned ''html_text'' = Some (dict_get e ''html_text'' (PStr ''''))
         \<and> field cleaned ''error'' = Some (dict_get e ''error'' PNone)
         \<and> field cleaned ''source'' = Some (dict_get e ''source'' (PStr ''''))
         \<and> field cleaned ''auth_type'' = Some (dict_get e ''auth_type'' (PStr ''''))
         \<and> field cleaned ''drill_state'' = Some (dict_get e ''drill_state'' (PDict []))
         \<and> field cleaned ''layout'' = Some (dict_get e ''layout'' (PDict []))
         \<and> (\<forall>k. field cleaned k \<noteq> None \<longrightarrow>
               k \<in> set [''tables'', ''kpis'', ''filters'', ''visuals'', ''components'',
                        ''html_text'', ''error'', ''source'', ''auth_type'', ''drill_state'',
                        ''layout''])))
   \<and> clean_unified_dashboard_data fr (PDict [])
       = Inr (PDict
            [(''tables'', PList []), (''kpis'', PList []), (''filters'', PList []),
             (''visuals'', PList []), (''layout'', PDict []), (''components'', PList []),
             (''html_text'', PStr ''''), (''error'', PNone), (''source'', PStr ''''),
             (''auth_type'', PStr ''''), (''drill_state'', PDict [])])"
proof (intro conjI impI)
  assume "clean_unified_dashboard_data fr extracted = Inr cleaned"
  from clean_unified_dashboard_data_Inr[OF this] obtain e t k f v c where
    e: "extracted = PDict e" and
    c: "cleaned = PDict
            [(''tables'', PList t),
             (''kpis'', PList k),
             (''filters'', PList f),
             (''visuals'', PList v),
             (''layout'', dict_get e ''layout'' (PDict [])),
             (''components'', PList c),
             (''html_text'', dict_get e ''html_text'' (PStr '''')),
             (''error'', dict_get e ''error'' PNone),
             (''source'', dict_get e ''source'' (PStr '''')),
             (''auth_type'', dict_get e ''auth_type'' (PStr '''')),
             (''drill_state'', dict_get e ''drill_state'' (PDict []))]"
    by blast
  have keys: "\<forall>k. field cleaned k \<noteq> None \<longrightarrow>
               k \<in> set [''tables'', ''kpis'', ''filters'', ''visuals'', ''components'',
                        ''html_text'', ''error'', ''source'', ''auth_type'', ''drill_state'',
                        ''layout'']"
    unfolding c field_def by (simp split: if_splits)
  have fields:
    "field cleaned ''html_text'' = Some (dict_get e ''html_text'' (PStr ''''))"
    "field cleaned ''error'' = Some (dict_get e ''error'' PNone)"
    "field cleaned ''source'' = Some (dict_get e ''source'' (PStr ''''))"
    "field cleaned ''auth_type'' = Some (dict_get e ''auth_type'' (PStr ''''))"
    "field cleaned ''drill_state'' = Some (dict_get e ''drill_state'' (PDict []))"
    "field cleaned ''layout'' = Some (dict_get e ''layout'' (PDict []))"
    unfolding c field_def by simp_all
  from e keys fields
  show "\<exists>e. extracted = PDict e
         \<and> field cleaned ''html_text'' = Some (dict_get e ''html_text'' (PStr ''''))
         \<and> field cleaned ''error'' = Some (dict_get e ''error'' PNone)
         \<and> field cleaned ''source'' = Some (dict_get e ''source'' (PStr ''''))
         \<and> field cleaned ''auth_type'' = Some (dict_get e ''auth_type'' (PStr ''''))
         \<and> field cleaned ''drill_state'' = Some (dict_get e ''drill_state'' (PDict []))
         \<and> field cleaned ''layout'' = Some (dict_get e ''layout'' (PDict []))
         \<and> (\<forall>k. field cleaned k \<noteq> None \<longrightarrow>
               k \<in> set [''tables'', ''kpis'', ''filters'', ''visuals'', ''components'',
                        ''html_text'', ''error'', ''source'', ''auth_type'', ''drill_state'',
                        ''layout''])"
    by blast
next
  show "clean_unified_dashboard_data fr (PDict [])
       = Inr (PDict
            [(''tables'', PList []), (''kpis'', PList []), (''filters'', PList []),
             (''visuals'', PList []), (''layout'', PDict []), (''components'', PList []),
             (''html_text'', PStr ''''), (''error'', PNone), (''source'', PStr ''''),
             (''auth_type'', PStr ''''), (''drill_state'', PDict [])])"
    by (simp add: clean_unified_dashboard_data_def dict_get_def)
qed

text \<open>
  A dashboard whose components need no cleaning: no frame is built for it, so the call
  returns whatever the frame library does.
\<close>

theorem clean_unified_dashboard_data_frame_witness:
  "clean_unified_dashboard_data dropping_frames
     (PDict [(''status'', PStr ''success''),
             (''source'', PStr ''tableau''),
             (''auth_type'', PStr ''public''),
             (''tables'', PList []),
             (''layout'', PDict [(''sections'', PList [PStr ''s1''])]),
             (''components'', PList [PDict [(''type'', PStr ''layout''),
                                           (''sections'', PList [PStr ''s1'']),
                                           (''highlights'', PList [])]]),
             (''html_text'', PStr ''text''),
             (''drill_state'', PDict [(''foo'', PStr ''bar'')]),
             (''error'', PNone)])
   = Inr (PDict
       [(''tables'', PList []),
        (''kpis'', PList []),
        (''filters'', PList []),
        (''visuals'', PList []),
        (''layout'', PDict [(''sections'', PList [PStr ''s1''])]),
        (''components'', PList [PDict [(''type'', PStr ''layout''),
                                      (''sections'', PList [PStr ''s1'']),
                                      (''highlights'', PList [])]]),
        (''html_text'', PStr ''text''),
        (''error'', PNone),
        (''source'', PStr ''tableau''),
        (''auth_type'', PStr ''public''),
        (''drill_state'', PDict [(''foo'', PStr ''bar'')])])
   \<and> field (PDict
       [(''tables'', PList []),
        (''kpis'', PList []),
        (''filters'', PList []),
        (''visuals'', PList []),
        (''layout'', PDict [(''sections'', PList [PStr ''s1''])]),
        (''components'', PList [PDict [(''type'', PStr ''layout''),
                                      (''sections'', PList [PStr ''s1'']),
                                      (''highlights'', PList [])]]),
        (''html_text'', PStr ''text''),
        (''error'', PNone),
        (''source'', PStr ''tableau''),
        (''auth_type'', PStr ''public''),
        (''drill_state'', PDict [(''foo'', PStr ''bar'')])]) ''drill_state''
     = Some (PDict [(''foo'', PStr ''bar'')])"
proof -
  have run: "clean_unified_dashboard_data dropping_frames
     (PDict [(''status'', PStr ''success''),
             (''source'', PStr ''tableau''),
             (''auth_type'', PStr ''public''),
             (''tables'', PList []),
             (''layout'', PDict [(''sections'', PList [PStr ''s1''])]),
             (''components'', PList [PDict [(''type'', PStr ''layout''),
                                           (''sections'', PList [PStr ''s1'']),
                                           (''highlights'', PList [])]]),
             (''html_text'', PStr ''text''),
             (''drill_state'', PDict [(''foo'', PStr ''bar'')]),
             (''error'', PNone)])
   = Inr (PDict
       [(''tables'', PList []),
        (''kpis'', PList []),
        (''filters'', PList []),
        (''visuals'', PList []),
        (''layout'', PDict [(''sections'', PList [PStr ''s1''])]),
        (''components'', PList [PDict [(''type'', PStr ''layout''),
                                      (''sections'', PList [PStr ''s1'']),
                                      (''highlights'', PList [])]]),
        (''html_text'', PStr ''text''),
        (''error'', PNone),
        (''source'', PStr ''tableau''),
        (''auth_type'', PStr ''public''),
        (''drill_state'', PDict [(''foo'', PStr ''bar'')])])"
    by (simp add: clean_unified_dashboard_data_def clean_component_def dict_get_def dict_has_def)
  from clean_unified_dashboard_data_frame[of dropping_frames _ _] run
  show ?thesis
    by (fastforce simp: dict_get_def)
qed

text \<open>
  The cleaner keeps what the unifier established: a component it returns as a dictionary
  has a \<open>highlights\<close> field.
\<close>

lemma py_setitem_Inr:
  "py_setitem v k x = Inr r \<Longrightarrow> \<exists>d. v = PDict d \<and> r = PDict (AList.update k x d)"
  by (cases v) auto

lemma clean_component_has_highlights:
  assumes "clean_component fr component = Inr (PDict c')"
  shows "dict_has c' ''highlights''"
proof (cases component)
  case (PDict c0)
  let ?c = "if \<not> dict_has c0 ''highlights'' then AList.update ''highlights'' (PList []) c0 else c0"
  have hc: "dict_has ?c ''highlights''"
    by (auto simp: dict_has_def dom_update)
  show ?thesis
  proof (cases "dict_get ?c ''type'' (PStr ''unknown'')
                  \<in> set [PStr ''table'', PStr ''kpi'', PStr ''filter'', PStr ''visual'']")
    case False
    with assms PDict have "PDict c' = PDict ?c"
      by (simp add: clean_component_def Let_def)
    with hc show ?thesis by simp
  next
    case True
    with assms PDict obtain cleaned h where
      s1: "py_setitem cleaned ''highlights'' h = Inr (PDict c') \<or>
           (\<exists>mid ds. py_setitem cleaned ''highlights'' h = Inr mid
                      \<and> py_setitem mid ''drill_state'' ds = Inr (PDict c'))"
      unfolding clean_component_def Let_def
      by (auto simp: bnd_eq_Inr split: if_splits)
    then show ?thesis
    proof
      assume "py_setitem cleaned ''highlights'' h = Inr (PDict c')"
      from py_setitem_Inr[OF this] show ?thesis by (auto simp: dict_has_def dom_update)
    next
      assume "\<exists>mid ds. py_setitem cleaned ''highlights'' h = Inr mid
                      \<and> py_setitem mid ''drill_state'' ds = Inr (PDict c')"
      then obtain mid ds where m: "py_setitem cleaned ''highlights'' h = Inr mid"
        and f: "py_setitem mid ''drill_state'' ds = Inr (PDict c')" by blast
      from py_setitem_Inr[OF m] py_setitem_Inr[OF f] show ?thesis
        by (auto simp: dict_has_def dom_update)
    qed
  qed
qed (use assms in \<open>simp_all add: clean_component_def\<close>)

subsection \<open>Column names\<close>

lemma dedup_loop_distinct:
  "distinct columns \<Longrightarrow> \<forall>c \<in> set columns. counts c = 0 \<Longrightarrow> dedup_loop counts columns = columns"
proof (induction columns arbitrary: counts)
  case Nil
  then show ?case by simp
next
  case (Cons col columns)
  have "dedup_loop (counts(col := counts col + 1)) columns = columns"
    using Cons.prems by (intro Cons.IH) auto
  with Cons.prems show ?case by (simp add: Let_def)
qed

lemma deduplicate_columns_distinct:
  "distinct columns \<Longrightarrow> deduplicate_columns columns = columns"
  by (simp add: deduplicate_columns_def dedup_loop_distinct)

lemma normalize_column_names_unfold:
  "normalize_column_names sm columns
     = map (apply_alias sm) (deduplicate_columns (map slug_step2 (map slug_step1 columns)))"
  by (simp add: normalize_column_names_def)

lemma apply_alias_default_idem:
  "apply_alias default_semantic_map (apply_alias default_semantic_map c)
     = apply_alias default_semantic_map c"
  by (simp add: apply_alias_def reverse_map_def default_semantic_map_def)

lemma sub_runs_id: "\<forall>c \<in> set s. \<not> p c \<Longrightarrow> sub_runs p s = s"
  by (induction s) simp_all

lemma strip_chars_id:
  assumes "s = [] \<or> (\<not> p (hd s) \<and> \<not> p (last s))"
  shows "strip_chars p s = s"
proof -
  have 1: "dropWhile p s = s" using assms by (auto simp: dropWhile_eq_self_iff)
  have 2: "dropWhile p (rev s) = rev s" using assms by (auto simp: dropWhile_eq_self_iff hd_rev)
  show ?thesis by (simp add: strip_chars_def 1 2)
qed

lemma slug_char_word: "is_slug_char c \<Longrightarrow> is_word_char c"
  by (auto simp: is_slug_char_def is_word_char_def Let_def)

lemma slug_char_not_space: "is_slug_char c \<Longrightarrow> \<not> is_py_space c"
  by (auto simp: is_slug_char_def is_py_space_def Let_def)

lemma slug_char_lower: "is_slug_char c \<Longrightarrow> py_lower_char c = c"
  by (auto simp: is_slug_char_def py_lower_char_def Let_def)

lemma us_slug_char: "is_slug_char (CHR ''_'')"
  by (simp add: is_slug_char_def)

lemma lower_word_slug: "is_word_char (py_lower_char c) \<Longrightarrow> is_slug_char (py_lower_char c)"
  using nat_of_char_less_256[of c]
  by (auto simp: is_word_char_def is_slug_char_def py_lower_char_def Let_def of_char_of
           split: if_splits)

lemma no_double_Cons:
  "no_double_us (c # xs) = ((xs \<noteq> [] \<longrightarrow> \<not> (c = CHR ''_'' \<and> hd xs = CHR ''_'')) \<and> no_double_us xs)"
  by (cases xs) simp_all

lemma sub_runs_us_id: "no_double_us s \<Longrightarrow> sub_runs (\<lambda>x. x = CHR ''_'') s = s"
  by (induction s rule: no_double_us.induct) auto

lemma set_sub_runs: "set (sub_runs p s) \<subseteq> insert (CHR ''_'') {c \<in> set s. \<not> p c}"
proof (induction p s rule: sub_runs.induct)
  case (1 p)
  then show ?case by simp
next
  case (2 p c cs)
  show ?case
  proof (cases "p c")
    case True
    with 2 have "set (sub_runs p (dropWhile p cs)) \<subseteq> insert (CHR ''_'') {c \<in> set (dropWhile p cs). \<not> p c}"
      by simp
    also have "\<dots> \<subseteq> insert (CHR ''_'') {x \<in> set (c # cs). \<not> p x}"
      using set_dropWhileD[of _ p cs] by auto
    finally show ?thesis using True by simp
  next
    case False
    with 2 show ?thesis by auto
  qed
qed

lemma set_strip_chars: "set (strip_chars p s) \<subseteq> set s"
proof
  fix x
  assume "x \<in> set (strip_chars p s)"
  then have "x \<in> set (dropWhile p (rev (dropWhile p s)))" by (simp add: strip_chars_def)
  then have "x \<in> set (rev (dropWhile p s))" by (rule set_dropWhileD)
  then have "x \<in> set (dropWhile p s)" by simp
  then show "x \<in> set s" by (rule set_dropWhileD)
qed

lemma no_double_sub_runs: "no_double_us (sub_runs (\<lambda>x. x = CHR ''_'') s)"
proof (induction "\<lambda>x. x = CHR ''_''" s rule: sub_runs.induct)
  case 1
  then show ?case by simp
next
  case (2 c cs)
  show ?case
  proof (cases "c = CHR ''_''")
    case True
    let ?t = "dropWhile (\<lambda>x. x = CHR ''_'') cs"
    from 2 True have ih: "no_double_us (sub_runs (\<lambda>x. x = CHR ''_'') ?t)" by simp
    have e: "sub_runs (\<lambda>x. x = CHR ''_'') (c # cs) = CHR ''_'' # sub_runs (\<lambda>x. x = CHR ''_'') ?t"
      using True by simp
    show ?thesis
    proof (cases ?t)
      case Nil
      then have "sub_runs (\<lambda>x. x = CHR ''_'') ?t = []" by (simp only: sub_runs.simps)
      with e show ?thesis by simp
    next
      case (Cons d ds)
      then have "?t \<noteq> []" by simp
      from hd_dropWhile[OF this] Cons have d: "d \<noteq> CHR ''_''" by simp
      from Cons d have "sub_runs (\<lambda>x. x = CHR ''_'') ?t = d # sub_runs (\<lambda>x. x = CHR ''_'') ds"
        by (simp only: sub_runs.simps if_False)
      with ih e d show ?thesis by (simp add: no_double_Cons)
    qed
  next
    case False
    with 2 show ?thesis by (simp add: no_double_Cons)
  qed
qed

lemma no_double_suffix: "no_double_us (a @ t) \<Longrightarrow> no_double_us t"
  by (induction a) (simp_all add: no_double_Cons)

lemma no_double_prefix: "no_double_us (t @ b) \<Longrightarrow> no_double_us t"
  by (induction t) (auto simp: no_double_Cons)

lemma strip_chars_sublist: "\<exists>a b. s = a @ strip_chars p s @ b"
proof -
  let ?t = "dropWhile p s"
  have "rev (dropWhile p (rev ?t)) @ rev (takeWhile p (rev ?t))
          = rev (takeWhile p (rev ?t) @ dropWhile p (rev ?t))"
    by (simp only: rev_append)
  also have "\<dots> = rev (rev ?t)" by (simp only: takeWhile_dropWhile_id)
  also have "\<dots> = ?t" by simp
  finally have t: "?t = strip_chars p s @ rev (takeWhile p (rev ?t))"
    by (simp add: strip_chars_def)
  have "s = takeWhile p s @ ?t" by simp
  with t have "s = takeWhile p s @ strip_chars p s @ rev (takeWhile p (rev ?t))"
    by simp
  then show ?thesis by blast
qed

lemma strip_chars_ends:
  assumes "strip_chars p s \<noteq> []"
  shows "\<not> p (hd (strip_chars p s)) \<and> \<not> p (last (strip_chars p s))"
proof -
  let ?t = "dropWhile p s"
  let ?u = "dropWhile p (rev ?t)"
  from assms have u: "?u \<noteq> []" by (simp add: strip_chars_def)
  have t: "?t \<noteq> []"
  proof
    assume "?t = []"
    then have "?u = []" by (simp only: rev.simps dropWhile.simps)
    with u show False by simp
  qed
  from hd_dropWhile[OF u] have "\<not> p (hd ?u)" .
  then have l: "\<not> p (last (strip_chars p s))" by (simp add: strip_chars_def last_rev)
  have "rev ?t = takeWhile p (rev ?t) @ ?u" by simp
  then have "last (rev ?t) = last ?u" using u by (metis last_appendR)
  then have "last ?u = hd ?t" by (simp add: last_rev)
  moreover from hd_dropWhile[OF t] have "\<not> p (hd ?t)" .
  ultimately have "\<not> p (hd (strip_chars p s))" by (simp add: strip_chars_def hd_rev)
  with l show ?thesis by simp
qed

lemma slug_step1_chars: "list_all is_slug_char (slug_step1 x)"
proof -
  have "\<forall>c \<in> set (slug_step1 x). is_slug_char c"
  proof
    fix c assume "c \<in> set (slug_step1 x)"
    with set_sub_runs[of "\<lambda>c. \<not> is_word_char c" "map py_lower_char (strip_chars is_py_space x)"]
    have "c = CHR ''_'' \<or> (c \<in> set (map py_lower_char (strip_chars is_py_space x)) \<and> is_word_char c)"
      by (auto simp: slug_step1_def)
    then show "is_slug_char c"
      using us_slug_char lower_word_slug by auto
  qed
  then show ?thesis by (simp add: list_all_iff)
qed

lemma slug_step2_form:
  assumes "list_all is_slug_char y"
  shows "slug_form (slug_step2 y)"
proof -
  let ?r = "sub_runs (\<lambda>x. x = CHR ''_'') y"
  have "set (slug_step2 y) \<subseteq> set ?r"
    unfolding slug_step2_def by (rule set_strip_chars)
  also have "\<dots> \<subseteq> insert (CHR ''_'') (set y)"
    using set_sub_runs[of "\<lambda>x. x = CHR ''_''" y] by auto
  finally have chars: "list_all is_slug_char (slug_step2 y)"
    using assms us_slug_char by (auto simp: list_all_iff)
  obtain a b where "?r = a @ slug_step2 y @ b"
    using strip_chars_sublist[of ?r "\<lambda>x. x = CHR ''_''"] by (auto simp: slug_step2_def)
  with no_double_sub_runs[of y] have nd: "no_double_us (slug_step2 y)"
    by (metis no_double_suffix no_double_prefix)
  have ends: "slug_step2 y = [] \<or> (hd (slug_step2 y) \<noteq> CHR ''_'' \<and> last (slug_step2 y) \<noteq> CHR ''_'')"
    using strip_chars_ends[of "\<lambda>x. x = CHR ''_''" ?r] by (auto simp: slug_step2_def)
  from chars nd ends show ?thesis by (simp add: slug_form_def)
qed

lemma slug_form_slug: "slug_form (slug_step2 (slug_step1 x))"
  by (rule slug_step2_form) (rule slug_step1_chars)

lemma slug_form_fixed:
  assumes "slug_form s"
  shows "slug_step2 (slug_step1 s) = s"
proof -
  from assms have chars: "\<forall>c \<in> set s. is_slug_char c"
    and nd: "no_double_us s"
    and ends: "s = [] \<or> (hd s \<noteq> CHR ''_'' \<and> last s \<noteq> CHR ''_'')"
    by (simp_all add: slug_form_def list_all_iff)
  have "s = [] \<or> (\<not> is_py_space (hd s) \<and> \<not> is_py_space (last s))"
    using chars slug_char_not_space by (cases s) auto
  then have 1: "strip_chars is_py_space s = s" by (rule strip_chars_id)
  have 2: "map py_lower_char s = s"
    using chars slug_char_lower by (simp add: map_idI)
  have 3: "sub_runs (\<lambda>c. \<not> is_word_char c) s = s"
    using chars slug_char_word by (intro sub_runs_id) auto
  have s1: "slug_step1 s = s" by (simp add: slug_step1_def 1 2 3)
  have 4: "sub_runs (\<lambda>x. x = CHR ''_'') s = s" using nd by (rule sub_runs_us_id)
  have 5: "strip_chars (\<lambda>x. x = CHR ''_'') s = s" using ends by (intro strip_chars_id) auto
  show ?thesis by (simp add: s1 slug_step2_def 4 5)
qed


lemma str_nat_digits: "str_nat n \<noteq> [] \<and> (\<forall>c \<in> set (str_nat n). is_slug_char c \<and> c \<noteq> CHR ''_'')"
proof (induction n rule: str_nat.induct)
  case (1 n)
  have d: "is_slug_char (char_of (48 + k)) \<and> char_of (48 + k) \<noteq> CHR ''_''" if "k < 10" for k :: nat
  proof -
    from that have o: "(of_char (char_of (48 + k)) :: nat) = 48 + k" by (simp add: of_char_of)
    have "char_of (48 + k) \<noteq> CHR ''_''"
    proof
      assume a: "char_of (48 + k) = CHR ''_''"
      from o have "(of_char (CHR ''_'') :: nat) = 48 + k" unfolding a .
      with that show False by simp
    qed
    moreover from o that have "is_slug_char (char_of (48 + k))" by (simp add: is_slug_char_def)
    ultimately show ?thesis by simp
  qed
  show ?case
  proof (cases "n < 10")
    case True
    then have "str_nat n = [char_of (48 + n)]" by (subst str_nat.simps) simp
    with d[OF True] show ?thesis by simp
  next
    case False
    then have e: "str_nat n = str_nat (n div 10) @ [char_of (48 + n mod 10)]"
      by (subst str_nat.simps) simp
    have "n mod 10 < 10" by simp
    from d[OF this] 1[OF False] show ?thesis unfolding e by auto
  qed
qed

lemma no_double_append:
  "no_double_us (a @ b) =
     (no_double_us a \<and> no_double_us b \<and> (a \<noteq> [] \<and> b \<noteq> [] \<longrightarrow> \<not> (last a = CHR ''_'' \<and> hd b = CHR ''_'')))"
  by (induction a) (auto simp: no_double_Cons hd_append)

lemma no_double_no_us: "\<forall>c \<in> set s. c \<noteq> CHR ''_'' \<Longrightarrow> no_double_us s"
  by (induction s) (auto simp: no_double_Cons)

lemma slug_form_suffix:
  assumes "slug_form c" "c \<noteq> []"
  shows "slug_form (c @ ''_'' @ str_nat k)"
proof -
  from assms have chars: "\<forall>x \<in> set c. is_slug_char x"
    and nd: "no_double_us c"
    and ends: "hd c \<noteq> CHR ''_''" "last c \<noteq> CHR ''_''"
    by (simp_all add: slug_form_def list_all_iff)
  from str_nat_digits[of k] have ne: "str_nat k \<noteq> []"
    and dg: "\<forall>x \<in> set (str_nat k). is_slug_char x \<and> x \<noteq> CHR ''_''" by simp_all
  have 1: "list_all is_slug_char (c @ ''_'' @ str_nat k)"
    using chars dg us_slug_char by (auto simp: list_all_iff)
  have "no_double_us (CHR ''_'' # str_nat k)"
    using dg ne no_double_no_us[of "str_nat k"] by (cases "str_nat k") (auto simp: no_double_Cons)
  then have 2: "no_double_us (c @ ''_'' @ str_nat k)"
    using nd ends by (simp add: no_double_append)
  have 3: "hd (c @ ''_'' @ str_nat k) \<noteq> CHR ''_''" using assms(2) ends by simp
  have "last (c @ ''_'' @ str_nat k) = last (str_nat k)" using ne by simp
  moreover have "last (str_nat k) \<in> set (str_nat k)" using ne by simp
  ultimately have 4: "last (c @ ''_'' @ str_nat k) \<noteq> CHR ''_''" using dg by metis
  from 1 2 3 4 show ?thesis by (simp add: slug_form_def)
qed

lemma dedup_loop_elems:
  "x \<in> set (dedup_loop counts columns) \<Longrightarrow>
     x \<in> set columns \<or>
     (\<exists>c \<in> set columns. \<exists>k. x = c @ ''_'' @ str_nat k \<and> 2 \<le> counts c + count_list columns c)"
proof (induction columns arbitrary: counts)
  case Nil
  then show ?case by simp
next
  case (Cons col columns)
  let ?counts = "counts(col := counts col + 1)"
  from Cons.prems consider
    (head) "x = (if ?counts col > 1 then col @ ''_'' @ str_nat (?counts col) else col)"
    | (tail) "x \<in> set (dedup_loop ?counts columns)"
    by (auto simp: Let_def)
  then show ?case
  proof cases
    case head
    then show ?thesis by (auto split: if_splits)
  next
    case tail
    from Cons.IH[OF tail] show ?thesis
    proof
      assume "x \<in> set columns"
      then show ?thesis by simp
    next
      assume "\<exists>c \<in> set columns. \<exists>k. x = c @ ''_'' @ str_nat k \<and> 2 \<le> ?counts c + count_list columns c"
      then obtain c k where c: "c \<in> set columns" "x = c @ ''_'' @ str_nat k"
        "2 \<le> ?counts c + count_list columns c" by blast
      then have "2 \<le> counts c + count_list (col # columns) c" by (auto split: if_splits)
      with c show ?thesis by auto
    qed
  qed
qed

lemma apply_alias_default_cases:
  "apply_alias default_semantic_map c = c
   \<or> apply_alias default_semantic_map c = ''revenue_usd''
   \<or> apply_alias default_semantic_map c = ''date''"
  by (simp add: apply_alias_def reverse_map_def default_semantic_map_def)

lemma normalized_names_slug_fixed:
  assumes "count_list (map slug_step2 (map slug_step1 headers)) [] \<le> 1"
    and "c \<in> set (normalize_column_names default_semantic_map headers)"
  shows "slug_step2 (slug_step1 c) = c"
proof -
  let ?slugs = "map slug_step2 (map slug_step1 headers)"
  from assms(2) obtain x where x: "x \<in> set (deduplicate_columns ?slugs)"
    and c: "c = apply_alias default_semantic_map x"
    by (auto simp: normalize_column_names_def)
  have forms: "\<forall>s \<in> set ?slugs. slug_form s" using slug_form_slug by auto
  have fx: "slug_form x"
  proof -
    from x dedup_loop_elems[of x "\<lambda>col. 0" ?slugs]
    consider "x \<in> set ?slugs"
      | s k where "s \<in> set ?slugs" "x = s @ ''_'' @ str_nat k" "2 \<le> count_list ?slugs s"
      by (auto simp: deduplicate_columns_def)
    then show ?thesis
    proof cases
      case 1
      with forms show ?thesis by blast
    next
      case 2
      with assms(1) have ne: "s \<noteq> []" by auto
      from 2 forms have "slug_form s" by blast
      from slug_form_suffix[OF this ne, of k] 2 show ?thesis by simp
    qed
  qed
  have t1: "slug_step2 (slug_step1 ''revenue_usd'') = ''revenue_usd''" by code_simp
  have t2: "slug_step2 (slug_step1 ''date'') = ''date''" by code_simp
  from apply_alias_default_cases[of x] c slug_form_fixed[OF fx] t1 t2
  show ?thesis by auto
qed

text \<open>
  Claim C6, as stated, fails: two headers that are aliases of the same standard name
  normalize to that name twice, and normalizing again suffixes the second.
\<close>

theorem normalize_twice_counterexample:
  "normalize_column_names default_semantic_map [''total_sales'', ''sales_usd'']
     = [''revenue_usd'', ''revenue_usd'']
   \<and> normalize_column_names default_semantic_map
       (normalize_column_names default_semantic_map [''total_sales'', ''sales_usd''])
     = [''revenue_usd'', ''revenue_usd_2'']"
  by code_simp

lemma normalize_column_names_stable:
  assumes "distinct (normalize_column_names default_semantic_map headers)"
    and "\<forall>c \<in> set (normalize_column_names default_semantic_map headers).
           slug_step2 (slug_step1 c) = c"
  shows "normalize_column_names default_semantic_map
           (normalize_column_names default_semantic_map headers)
         = normalize_column_names default_semantic_map headers"
proof -
  let ?n = "normalize_column_names default_semantic_map headers"
  let ?d = "deduplicate_columns (map slug_step2 (map slug_step1 headers))"
  have n: "?n = map (apply_alias default_semantic_map) ?d"
    by (rule normalize_column_names_unfold)
  have slug: "map slug_step2 (map slug_step1 ?n) = ?n"
    using assms(2) by (simp add: map_idI)
  have "normalize_column_names default_semantic_map ?n
          = map (apply_alias default_semantic_map)
              (deduplicate_columns (map slug_step2 (map slug_step1 ?n)))"
    by (rule normalize_column_names_unfold)
  also have "\<dots> = map (apply_alias default_semantic_map) (deduplicate_columns ?n)"
    by (simp only: slug)
  also have "\<dots> = map (apply_alias default_semantic_map) ?n"
    using assms(1) by (simp add: deduplicate_columns_distinct)
  also have "\<dots> = map (apply_alias default_semantic_map) (map (apply_alias default_semantic_map) ?d)"
    by (simp only: n [symmetric])
  also have "\<dots> = map (apply_alias default_semantic_map) ?d"
    by (simp add: apply_alias_default_idem)
  also have "\<dots> = ?n"
    by (simp only: n [symmetric])
  finally show ?thesis .
qed

text \<open>
  Claim C6, amended. With the default semantic map, normalizing a second time changes
  nothing when the names the first normalization gives are pairwise distinct and at
  most one header slugifies to the empty name.
\<close>

theorem normalize_column_names_idempotent:
  assumes "distinct (normalize_column_names default_semantic_map headers)"
    and "count_list (map slug_step2 (map slug_step1 headers)) [] \<le> 1"
  shows "normalize_column_names default_semantic_map
           (normalize_column_names default_semantic_map headers)
         = normalize_column_names default_semantic_map headers"
proof (rule normalize_column_names_stable[OF assms(1)])
  show "\<forall>c \<in> set (normalize_column_names default_semantic_map headers).
           slug_step2 (slug_step1 c) = c"
    using normalized_names_slug_fixed[OF assms(2)] by blast
qed

theorem normalize_column_names_idempotent_witness:
  "distinct (normalize_column_names default_semantic_map [''Sales'', ''Sales'', ''Order Date''])
   \<and> count_list (map slug_step2 (map slug_step1 [''Sales'', ''Sales'', ''Order Date''])) [] \<le> 1
   \<and> normalize_column_names default_semantic_map [''Sales'', ''Sales'', ''Order Date'']
       = [''sales'', ''sales_2'', ''date'']
   \<and> normalize_column_names default_semantic_map
           (normalize_column_names default_semantic_map [''Sales'', ''Sales'', ''Order Date''])
         = normalize_column_names default_semantic_map [''Sales'', ''Sales'', ''Order Date'']"
proof -
  have v: "normalize_column_names default_semantic_map [''Sales'', ''Sales'', ''Order Date'']
       = [''sales'', ''sales_2'', ''date'']"
    by code_simp
  have d: "distinct (normalize_column_names default_semantic_map [''Sales'', ''Sales'', ''Order Date''])"
    unfolding v by simp
  have e: "count_list (map slug_step2 (map slug_step1 [''Sales'', ''Sales'', ''Order Date''])) [] \<le> 1"
    by code_simp
  from normalize_column_names_idempotent[OF d e] d e v show ?thesis by blast
qed

end
